theory Spec2Isabelle
  imports Main "HOL-Library.Monad_Syntax"
begin

section \<open>Own properties of a JavaScript object\<close>

text \<open>
  The own enumerable properties of an object, in the order of their creation. Reading a key
  that is not there gives \<open>None\<close>, assigning to a key that is there keeps its position,
  assigning to a new key appends it. \<^verbatim>\<open>Object.keys\<close> lists the keys that are array indices
  first, in ascending numeric order, and every other key after them in creation order.
\<close>

type_synonym 'v properties = "(string \<times> 'v) list"

definition own_get :: "'v properties \<Rightarrow> string \<Rightarrow> 'v option" where
  "own_get props key = map_of props key"

fun own_set :: "'v properties \<Rightarrow> string \<Rightarrow> 'v \<Rightarrow> 'v properties" where
  "own_set [] key v = [(key, v)]"
| "own_set ((k, w) # rest) key v =
     (if k = key then (key, v) # rest else (k, w) # own_set rest key v)"

definition is_digit :: "char \<Rightarrow> bool" where
  "is_digit c = (c \<in> set ''0123456789'')"

definition digit_value :: "char \<Rightarrow> int" where
  "digit_value c = of_char c - 48"

definition index_value :: "string \<Rightarrow> int" where
  "index_value key = foldl (\<lambda>acc c. 10 * acc + digit_value c) 0 key"

definition is_array_index :: "string \<Rightarrow> bool" where
  "is_array_index key =
     (key \<noteq> [] \<and> list_all is_digit key \<and> (key = ''0'' \<or> hd key \<noteq> CHR ''0'')
      \<and> index_value key < 2 ^ 32 - 1)"

definition own_keys :: "'v properties \<Rightarrow> string list" where
  "own_keys props =
     (let keys = map fst props
      in sort_key index_value (filter is_array_index keys)
         @ filter (\<lambda>key. \<not> is_array_index key) keys)"

section \<open>Parameters\<close>

text \<open>
  \<^verbatim>\<open>CfnParameter\<close> and \<^verbatim>\<open>CfnParameterProps\<close> belong to the construct library the stack is
  written against. A parameter is kept as the identifier it was created under, its logical
  identifier and the properties it was declared with. The library derives the logical
  identifier from the construct identifier; that derivation is the parameter \<open>lid\<close> of
  everything below, so nothing proved here depends on it.
\<close>

datatype jsvalue = Str string | Num int | StrList "string list"

record CfnParameterProps =
  type_p :: "string option"
  description_p :: "string option"
  minLength :: "int option"
  allowedValues :: "string list option"
  default_p :: "jsvalue option"
  minValue :: "int option"

definition no_props :: CfnParameterProps where
  "no_props = \<lparr>type_p = None, description_p = None, minLength = None,
               allowedValues = None, default_p = None, minValue = None\<rparr>"

record CfnParameter =
  node_id :: string
  logicalId :: string
  declared :: CfnParameterProps

text \<open>\<^verbatim>\<open>new CfnParameter(this, id, props)\<close>, in a stack whose logical identifiers are \<open>lid\<close>.\<close>

definition CfnParameter_new :: "(string \<Rightarrow> string) \<Rightarrow> string \<Rightarrow> CfnParameterProps \<Rightarrow> CfnParameter" where
  "CfnParameter_new lid ident props = \<lparr>node_id = ident, logicalId = lid ident, declared = props\<rparr>"

section \<open>The object that holds the groups\<close>

text \<open>
  An element of a parameter array a caller passes is \<open>None\<close> where the array holds
  \<^verbatim>\<open>undefined\<close> or \<^verbatim>\<open>null\<close>: \<^verbatim>\<open>_setParamGroups\<close> tests each element before it reads
  \<^verbatim>\<open>logicalId\<close>.
\<close>

type_synonym param_array = "CfnParameter option list"

text \<open>
  \<^verbatim>\<open>_paramGroup\<close> is a plain object, created as \<^verbatim>\<open>{}\<close> and indexed by the group label, so a
  label that the object does not own is looked up along its prototype chain. An array stored
  under a label can therefore hold, next to the elements callers passed (\<open>Held\<close>), a value
  that is no parameter at all: a function or an object inherited from a prototype
  (\<open>Foreign\<close>). Such a value is not nullish, is no array, and has no \<^verbatim>\<open>logicalId\<close>.
\<close>

datatype element = Held "CfnParameter option" | Foreign

text \<open>
  The object: its own properties, each an array, and its prototype. The prototype is
  \<^verbatim>\<open>Object.prototype\<close> (\<open>None\<close>) until an assignment to the key \<^verbatim>\<open>__proto__\<close> replaces it by
  the array assigned (\<open>Some\<close>), whose own prototype chain is \<^verbatim>\<open>Array.prototype\<close>, then
  \<^verbatim>\<open>Object.prototype\<close>.
\<close>

record group_object =
  own :: "element list properties"
  proto :: "element list option"

text \<open>
  The names \<^verbatim>\<open>Object.prototype\<close> and \<^verbatim>\<open>Array.prototype\<close> define (ECMAScript 2023, with the
  legacy accessors of its Annex B). \<^verbatim>\<open>__proto__\<close> is the one accessor among them and is
  treated apart; all others are writable data properties that hold a function, and
  \<^verbatim>\<open>length\<close> of an array holds a number.
\<close>

definition Object_prototype_names :: "string list" where
  "Object_prototype_names =
     [''constructor'', ''__defineGetter__'', ''__defineSetter__'', ''hasOwnProperty'',
      ''__lookupGetter__'', ''__lookupSetter__'', ''isPrototypeOf'', ''propertyIsEnumerable'',
      ''toString'', ''valueOf'', ''toLocaleString'']"

definition Array_prototype_names :: "string list" where
  "Array_prototype_names =
     [''length'', ''constructor'', ''at'', ''concat'', ''copyWithin'', ''fill'', ''find'',
      ''findIndex'', ''findLast'', ''findLastIndex'', ''lastIndexOf'', ''pop'', ''push'',
      ''reverse'', ''shift'', ''unshift'', ''slice'', ''sort'', ''splice'', ''includes'',
      ''indexOf'', ''join'', ''keys'', ''entries'', ''values'', ''forEach'', ''filter'',
      ''flat'', ''flatMap'', ''map'', ''every'', ''some'', ''reduce'', ''reduceRight'',
      ''toLocaleString'', ''toString'', ''toReversed'', ''toSorted'', ''toSpliced'', ''with'']"

text \<open>
  What \<^verbatim>\<open>this._paramGroup[key]\<close> reads: an array, a value that is no array, or
  \<^verbatim>\<open>undefined\<close>. An own property comes first. \<^verbatim>\<open>__proto__\<close> reads the prototype itself. With
  an array as prototype, an index below its length reads that element (an element that is
  \<^verbatim>\<open>undefined\<close> reads as such).
\<close>

datatype looked_up = Array "element list" | Value element | Undefined

definition obj_get :: "group_object \<Rightarrow> string \<Rightarrow> looked_up" where
  "obj_get obj key =
     (case own_get (own obj) key of
        Some elems \<Rightarrow> Array elems
      | None \<Rightarrow>
          (case proto obj of
             None \<Rightarrow>
               if key = ''__proto__'' \<or> key \<in> set Object_prototype_names
               then Value Foreign else Undefined
           | Some arr \<Rightarrow>
               if key = ''__proto__'' then Array arr
               else if is_array_index key \<and> nat (index_value key) < length arr
               then (case arr ! nat (index_value key) of
                       Held None \<Rightarrow> Undefined
                     | e \<Rightarrow> Value e)
               else if key \<in> set Array_prototype_names \<or> key \<in> set Object_prototype_names
               then Value Foreign else Undefined))"

text \<open>
  \<^verbatim>\<open>this._paramGroup[key] = arr\<close>. A key the object owns is overwritten. Otherwise the key
  \<^verbatim>\<open>__proto__\<close> reaches the inherited setter, which makes the array the prototype and
  creates no property; every other key becomes a new own property, inherited or not.
\<close>

definition obj_set :: "group_object \<Rightarrow> string \<Rightarrow> element list \<Rightarrow> group_object" where
  "obj_set obj key arr =
     (if key = ''__proto__'' \<and> own_get (own obj) key = None
      then obj\<lparr>proto := Some arr\<rparr>
      else obj\<lparr>own := own_set (own obj) key arr\<rparr>)"

definition obj_keys :: "group_object \<Rightarrow> string list" where
  "obj_keys obj = own_keys (own obj)"

text \<open>
  \<^verbatim>\<open>x ?? []\<close> as an argument of \<^verbatim>\<open>concat\<close>: an array is spread, any other value that is not
  nullish is appended as one element.
\<close>

fun concat_arg :: "looked_up \<Rightarrow> element list" where
  "concat_arg (Array elems) = elems"
| "concat_arg (Value e) = [e]"
| "concat_arg Undefined = []"

section \<open>SolutionStack\<close>

record Label_r =
  default_l :: string

record ParameterGroup =
  Label :: Label_r
  Parameters :: "string list"

record Interface =
  ParameterGroups :: "ParameterGroup list"

text \<open>
  The metadata is a plain object too; the only key the stack writes and reads in it is
  \<^verbatim>\<open>AWS::CloudFormation::Interface\<close>, an own property.
\<close>

record TemplateOptions =
  description :: "string option"
  metadata :: "Interface properties option"

record SolutionStack =
  paramGroup :: group_object
  templateOptions :: TemplateOptions
  parameters :: "CfnParameter list"

definition setDescription :: "'a SolutionStack_scheme \<Rightarrow> string \<Rightarrow> 'a SolutionStack_scheme" where
  "setDescription this d =
     this\<lparr>templateOptions := (templateOptions this)\<lparr>description := Some d\<rparr>\<rparr>"

definition makeParam ::
  "(string \<Rightarrow> string) \<Rightarrow> 'a SolutionStack_scheme \<Rightarrow> string \<Rightarrow> CfnParameterProps
     \<Rightarrow> CfnParameter \<times> 'a SolutionStack_scheme" where
  "makeParam lid this ident props =
     (let p = CfnParameter_new lid ident props
      in (p, this\<lparr>parameters := parameters this @ [p]\<rparr>))"

text \<open>
  \<^verbatim>\<open>p ? p.logicalId : ''\<close> followed by \<^verbatim>\<open>.filter(id => id)\<close>: the only falsy string is the
  empty one. A value that is no parameter has no \<^verbatim>\<open>logicalId\<close>: what is read is
  \<^verbatim>\<open>undefined\<close>, which the filter drops as it drops the empty string, and which is the
  empty identifier here.
\<close>

definition param_id :: "CfnParameter option \<Rightarrow> string" where
  "param_id p = (case p of None \<Rightarrow> [] | Some q \<Rightarrow> logicalId q)"

fun element_id :: "element \<Rightarrow> string" where
  "element_id (Held p) = param_id p"
| "element_id Foreign = []"

definition truthy_string :: "string \<Rightarrow> bool" where
  "truthy_string ident = (ident \<noteq> [])"

definition mkgrp :: "string \<Rightarrow> element list \<Rightarrow> ParameterGroup" where
  "mkgrp label params =
     \<lparr>Label = \<lparr>default_l = label\<rparr>,
      Parameters = filter truthy_string (map element_id params)\<rparr>"

text \<open>
  \<^verbatim>\<open>Object.keys(this._paramGroup).map(key => mkgrp(key, this._paramGroup[key]))\<close>.
  \<^verbatim>\<open>params.map\<close> on \<^verbatim>\<open>undefined\<close>, and on a value that is no array, throws a TypeError: that
  is the result \<open>None\<close>.
\<close>

fun mkgrps :: "group_object \<Rightarrow> string list \<Rightarrow> ParameterGroup list option" where
  "mkgrps pg [] = Some []"
| "mkgrps pg (key # keys) =
     (case obj_get pg key of
        Array params \<Rightarrow> map_option ((#) (mkgrp key params)) (mkgrps pg keys)
      | _ \<Rightarrow> None)"

definition interface_key :: string where
  "interface_key = ''AWS::CloudFormation::Interface''"

definition setParamGroups :: "'a SolutionStack_scheme \<Rightarrow> 'a SolutionStack_scheme option" where
  "setParamGroups this =
     (let md = (case metadata (templateOptions this) of None \<Rightarrow> [] | Some m \<Rightarrow> m)
      in case mkgrps (paramGroup this) (obj_keys (paramGroup this)) of
           None \<Rightarrow> None
         | Some groups \<Rightarrow>
             Some (this\<lparr>templateOptions := (templateOptions this)
                     \<lparr>metadata := Some (own_set md interface_key \<lparr>ParameterGroups = groups\<rparr>)\<rparr>\<rparr>))"

text \<open>
  The loop of \<^verbatim>\<open>addGroupParam\<close> over \<^verbatim>\<open>Object.keys(props)\<close>:
  \<^verbatim>\<open>this._paramGroup[key] = params.concat(this._paramGroup[key] ?? [])\<close>. \<open>props\<close> is the
  caller's object by its own properties, which is where the keys of \<^verbatim>\<open>Object.keys\<close> are
  read. \<^verbatim>\<open>params.concat\<close> on \<^verbatim>\<open>undefined\<close> throws a TypeError as well.
\<close>

fun addGroupParam_loop ::
  "group_object \<Rightarrow> param_array properties \<Rightarrow> string list \<Rightarrow> group_object option" where
  "addGroupParam_loop pg props [] = Some pg"
| "addGroupParam_loop pg props (key # keys) =
     (case own_get props key of
        None \<Rightarrow> None
      | Some params \<Rightarrow>
          addGroupParam_loop
            (obj_set pg key (map Held params @ concat_arg (obj_get pg key)))
            props keys)"

definition addGroupParam ::
  "'a SolutionStack_scheme \<Rightarrow> param_array properties \<Rightarrow> 'a SolutionStack_scheme option" where
  "addGroupParam this props =
     (case addGroupParam_loop (paramGroup this) props (own_keys props) of
        None \<Rightarrow> None
      | Some pg \<Rightarrow> setParamGroups (this\<lparr>paramGroup := pg\<rparr>))"

text \<open>What the template shows: the groups under the interface key of the metadata.\<close>

definition exportGroups :: "'a SolutionStack_scheme \<Rightarrow> ParameterGroup list" where
  "exportGroups this =
     (case metadata (templateOptions this) of
        None \<Rightarrow> []
      | Some md \<Rightarrow> (case own_get md interface_key of None \<Rightarrow> [] | Some i \<Rightarrow> ParameterGroups i))"

definition group_ids :: "'a SolutionStack_scheme \<Rightarrow> string \<Rightarrow> string list option" where
  "group_ids this label =
     map_option Parameters (find (\<lambda>g. default_l (Label g) = label) (exportGroups this))"

text \<open>
  A stack as \<^verbatim>\<open>super(scope, id, props)\<close> leaves it: no group, no metadata, no parameter.
\<close>

definition SolutionStack_init :: SolutionStack where
  "SolutionStack_init =
     \<lparr>paramGroup = \<lparr>own = [], proto = None\<rparr>,
      templateOptions = \<lparr>description = None, metadata = None\<rparr>, parameters = []\<rparr>"

subsection \<open>Registering groups one label at a time\<close>

text \<open>
  Every call in the sources has the shape \<^verbatim>\<open>this.addGroupParam({ label: params })\<close>:
  an object with one own key.
\<close>

definition register ::
  "'a SolutionStack_scheme \<Rightarrow> string \<Rightarrow> param_array \<Rightarrow> 'a SolutionStack_scheme option" where
  "register this label params = addGroupParam this [(label, params)]"

fun register_all ::
  "'a SolutionStack_scheme \<Rightarrow> (string \<times> param_array) list \<Rightarrow> 'a SolutionStack_scheme option" where
  "register_all this [] = Some this"
| "register_all this ((label, params) # calls) =
     (case register this label params of None \<Rightarrow> None | Some this' \<Rightarrow> register_all this' calls)"

text \<open>The group a label has in the template after a sequence of calls, when they return.\<close>

definition group_ids_after ::
  "'a SolutionStack_scheme \<Rightarrow> (string \<times> param_array) list \<Rightarrow> string \<Rightarrow> string list option option" where
  "group_ids_after this calls label =
     (case register_all this calls of None \<Rightarrow> None | Some this' \<Rightarrow> Some (group_ids this' label))"

text \<open>
  The identifiers an array contributes to the template, as a caller passes it and as it is
  stored, and what a label reads so far.
\<close>

definition filtered_ids :: "param_array \<Rightarrow> string list" where
  "filtered_ids params = filter truthy_string (map param_id params)"

definition stored_ids :: "element list \<Rightarrow> string list" where
  "stored_ids elems = filter truthy_string (map element_id elems)"

definition registered :: "'a SolutionStack_scheme \<Rightarrow> string \<Rightarrow> element list" where
  "registered this label = concat_arg (obj_get (paramGroup this) label)"

text \<open>A label that names nothing an object inherits from \<^verbatim>\<open>Object.prototype\<close>.\<close>

definition ordinary_label :: "string \<Rightarrow> bool" where
  "ordinary_label label = (label \<noteq> ''__proto__'' \<and> label \<notin> set Object_prototype_names)"

text \<open>The groups of the keys \<open>keys\<close>, for keys that are all own.\<close>

definition all_groups :: "element list properties \<Rightarrow> string list \<Rightarrow> ParameterGroup list" where
  "all_groups props keys = map (\<lambda>key. mkgrp key (the (own_get props key))) keys"

section \<open>Deferred values\<close>

text \<open>
  The value of a parameter is not known when the stack is built: \<^verbatim>\<open>valueAsString\<close>,
  \<^verbatim>\<open>valueAsList\<close> and \<^verbatim>\<open>valueAsNumber\<close> give a reference to the parameter, and
  \<^verbatim>\<open>Fn.select\<close> builds a deferred selection from a deferred list. They are kept as
  symbolic values.
\<close>

datatype list_token = valueAsList CfnParameter

datatype string_token =
    literal string
  | valueAsString CfnParameter
  | Fn_select nat list_token
  | Aws_NO_VALUE

datatype number_token = valueAsNumber CfnParameter

text \<open>
  Modelled from the spec: the resolution of deferred values, which the template engine
  performs when the template is instantiated and which is not part of the sources. A
  reference to a parameter resolves to the value supplied for its logical identifier and,
  when none is supplied, to the default it was declared with; a selection resolves to the
  element of the resolved list at its index.
\<close>

definition resolve_param :: "(string \<rightharpoonup> jsvalue) \<Rightarrow> CfnParameter \<Rightarrow> jsvalue option" where
  "resolve_param supplied p =
     (case supplied (logicalId p) of Some v \<Rightarrow> Some v | None \<Rightarrow> default_p (declared p))"

fun resolve_list :: "(string \<rightharpoonup> jsvalue) \<Rightarrow> list_token \<Rightarrow> string list option" where
  "resolve_list supplied (valueAsList p) =
     (case resolve_param supplied p of Some (StrList xs) \<Rightarrow> Some xs | _ \<Rightarrow> None)"

fun resolve_string :: "(string \<rightharpoonup> jsvalue) \<Rightarrow> string_token \<Rightarrow> string option" where
  "resolve_string supplied (literal s) = Some s"
| "resolve_string supplied (valueAsString p) =
     (case resolve_param supplied p of Some (Str s) \<Rightarrow> Some s | _ \<Rightarrow> None)"
| "resolve_string supplied (Fn_select index l) =
     (case resolve_list supplied l of
        None \<Rightarrow> None
      | Some xs \<Rightarrow> if index < length xs then Some (xs ! index) else None)"
| "resolve_string supplied Aws_NO_VALUE = None"

fun resolve_number :: "(string \<rightharpoonup> jsvalue) \<Rightarrow> number_token \<Rightarrow> int option" where
  "resolve_number supplied (valueAsNumber p) =
     (case resolve_param supplied p of Some (Num n) \<Rightarrow> Some n | _ \<Rightarrow> None)"

section \<open>Network and instance values\<close>

datatype InstanceType = InstanceType string_token

datatype ISubnet = ImportedSubnet string_token

record VpcAttributes =
  vpcId :: string_token
  vpcCidrBlock :: string_token
  availabilityZones :: "string list"
  publicSubnetIds :: "string_token list"
  privateSubnetIds :: "string_token list"
  isolatedSubnetIds :: "string_token list"

record IVpc =
  attributes :: VpcAttributes
  publicSubnets_of :: "ISubnet list"
  privateSubnets_of :: "ISubnet list"
  isolatedSubnets_of :: "ISubnet list"

text \<open>
  Modelled from the spec: \<^verbatim>\<open>ec2.Vpc.fromVpcAttributes\<close>, which belongs to the construct
  library. The network it returns has one imported subnet for each subnet identifier it is
  given, in the order given.
\<close>

definition fromVpcAttributes :: "VpcAttributes \<Rightarrow> IVpc" where
  "fromVpcAttributes attrs =
     \<lparr>attributes = attrs,
      publicSubnets_of = map ImportedSubnet (publicSubnetIds attrs),
      privateSubnets_of = map ImportedSubnet (privateSubnetIds attrs),
      isolatedSubnets_of = map ImportedSubnet (isolatedSubnetIds attrs)\<rparr>"

record SubnetSelection =
  subnets :: "ISubnet list"

fun resolve_subnet :: "(string \<rightharpoonup> jsvalue) \<Rightarrow> ISubnet \<Rightarrow> string option" where
  "resolve_subnet supplied (ImportedSubnet t) = resolve_string supplied t"

datatype Duration = Duration_days int

section \<open>KeycloakStack\<close>

text \<open>
  The two flags are optional properties: \<open>None\<close> is \<^verbatim>\<open>undefined\<close>. The other properties
  of \<^verbatim>\<open>StackProps\<close> are the extension of the record.
\<close>

record KeycloakStackProps =
  auroraServerless :: "bool option"
  fromExistingVPC :: "bool option"

definition truthy :: "bool option \<Rightarrow> bool" where
  "truthy flag = (flag = Some True)"

text \<open>
  Reading an optional property of the constructor's \<^verbatim>\<open>props\<close>, which is \<^verbatim>\<open>{}\<close> when the
  caller leaves the argument out.
\<close>

definition flag_of :: "('p \<Rightarrow> bool option) \<Rightarrow> 'p option \<Rightarrow> bool option" where
  "flag_of sel props = (case props of None \<Rightarrow> None | Some p \<Rightarrow> sel p)"

record KeycloakSettings =
  certificateArn :: string_token
  vpc :: "IVpc option"
  publicSubnets :: "SubnetSelection option"
  privateSubnets :: "SubnetSelection option"
  databaseSubnets :: "SubnetSelection option"
  databaseInstanceType :: "InstanceType option"

record KeycloakStack = SolutionStack +
  keycloakSettings :: KeycloakSettings

definition KeycloakStack_init :: KeycloakStack where
  "KeycloakStack_init =
     SolutionStack.extend SolutionStack_init
       (KeycloakStack.fields
          \<lparr>certificateArn = literal [], vpc = None, publicSubnets = None, privateSubnets = None,
           databaseSubnets = None, databaseInstanceType = None\<rparr>)"

text \<open>
  \<^verbatim>\<open>KeyCloak\<close> and \<^verbatim>\<open>KeycloakVersion\<close> are declared in \<^verbatim>\<open>./keycloak\<close>, which is not among
  the sources. \<^verbatim>\<open>KeycloakVersion\<close> is kept as the five members the stack names and the
  versions \<^verbatim>\<open>KeycloakVersion.of\<close> makes; the text a member gives inside a template literal
  is the parameter \<open>vtext\<close> of the constructor. \<^verbatim>\<open>KeyCloak\<close> is kept as the properties it
  is created with.
\<close>

datatype KeycloakVersion =
    V12_0_4 | V15_0_0 | V15_0_1 | V15_0_2 | cbV15_0_2
  | KeycloakVersion_of string_token

record AutoScaleTask =
  min_t :: number_token
  max_t :: number_token
  targetCpuUtilization :: number_token

record Env =
  JAVA_OPTS :: string_token

record KeyCloakProps =
  vpc_k :: "IVpc option"
  publicSubnets_k :: "SubnetSelection option"
  privateSubnets_k :: "SubnetSelection option"
  databaseSubnets_k :: "SubnetSelection option"
  certificateArn_k :: string_token
  auroraServerless_k :: "bool option"
  databaseInstanceType_k :: "InstanceType option"
  stickinessCookieDuration :: Duration
  nodeCount :: number_token
  autoScaleTask :: AutoScaleTask
  env :: Env
  keycloakVersion :: KeycloakVersion

definition INSTANCE_TYPES :: "string list" where
  "INSTANCE_TYPES =
    [''m5.large'', ''m5.xlarge'', ''m5.2xlarge'', ''m5.4xlarge'', ''m5.8xlarge'', ''m5a.xlarge'',
     ''m5a.2xlarge'', ''m5a.4xlarge'', ''m5a.8xlarge'', ''m5d.xlarge'', ''m5d.2xlarge'', ''m5d.4xlarge'',
     ''m5d.8xlarge'', ''m6g.xlarge'', ''m6g.2xlarge'', ''m6g.4xlarge'', ''m6g.8xlarge'', ''c5.xlarge'',
     ''c5.2xlarge'', ''c5.4xlarge'', ''c5.9xlarge'', ''c5d.xlarge'', ''c5d.2xlarge'', ''c5d.4xlarge'',
     ''c5d.9xlarge'', ''c5n.xlarge'', ''c5n.2xlarge'', ''c5n.4xlarge'', ''c5n.9xlarge'', ''c6g.xlarge'',
     ''c6g.2xlarge'', ''c6g.4xlarge'', ''c6g.8xlarge'', ''cc2.8xlarge'', ''z1d.xlarge'', ''z1d.2xlarge'',
     ''z1d.3xlarge'', ''z1d.6xlarge'', ''r5.large'', ''r5.xlarge'', ''r5.2xlarge'', ''r5.4xlarge'',
     ''r5.8xlarge'', ''r5a.xlarge'', ''r5a.2xlarge'', ''r5a.4xlarge'', ''r5a.8xlarge'', ''r5d.xlarge'',
     ''r5d.2xlarge'', ''r5d.4xlarge'', ''r5d.8xlarge'', ''r6g.xlarge'', ''r6g.2xlarge'', ''r6g.4xlarge'',
     ''r6g.8xlarge'', ''cr1.8xlarge'', ''i3.xlarge'', ''i3.2xlarge'', ''i3.4xlarge'', ''i3.8xlarge'',
     ''i3en.xlarge'', ''i3en.2xlarge'', ''i3en.3xlarge'', ''i3en.6xlarge'', ''d2.xlarge'', ''d2.2xlarge'',
     ''d2.4xlarge'', ''d2.8xlarge'', ''g4dn.xlarge'', ''g4dn.2xlarge'', ''g4dn.4xlarge'', ''g4dn.8xlarge'',
     ''p2.xlarge'', ''p2.8xlarge'', ''p3.2xlarge'', ''p3.8xlarge'']"

definition newline :: string where
  "newline = [CHR 0x0A]"

definition versions_description :: "(KeycloakVersion \<Rightarrow> string) \<Rightarrow> string" where
  "versions_description vtext =
     ''List of Versions '' @ newline
     @ ''        '' @ vtext V12_0_4 @ '', '' @ newline
     @ ''        '' @ vtext V15_0_0 @ '','' @ newline
     @ ''        '' @ vtext V15_0_1 @ '','' @ newline
     @ ''        '' @ vtext V15_0_2 @ '','' @ newline
     @ ''        '' @ vtext cbV15_0_2 @ newline
     @ ''        ''"

text \<open>
  The properties each parameter is declared with: the object literals of the calls of
  \<^verbatim>\<open>makeParam\<close> in the constructor, in its order. A property that a literal leaves out
  is \<open>None\<close>.
\<close>

definition CertificateArn_props :: CfnParameterProps where
  "CertificateArn_props =
     no_props\<lparr>type_p := Some ''String'',
              description_p := Some ''Certificate Arn for Application Load Balancer'',
              minLength := Some 5\<rparr>"

definition DatabaseInstanceType_props :: CfnParameterProps where
  "DatabaseInstanceType_props =
     no_props\<lparr>type_p := Some ''String'',
              description_p := Some ''Instance type to be used for the core instances'',
              allowedValues := Some INSTANCE_TYPES,
              default_p := Some (Str ''r5.large'')\<rparr>"

definition VpcId_props :: CfnParameterProps where
  "VpcId_props =
     no_props\<lparr>type_p := Some ''AWS::EC2::VPC::Id'', description_p := Some ''Your VPC Id''\<rparr>"

definition PubSubnets_props :: CfnParameterProps where
  "PubSubnets_props =
     no_props\<lparr>type_p := Some ''List<AWS::EC2::Subnet::Id>'',
              description_p := Some ''Public subnets (Choose two)''\<rparr>"

definition PrivSubnets_props :: CfnParameterProps where
  "PrivSubnets_props =
     no_props\<lparr>type_p := Some ''List<AWS::EC2::Subnet::Id>'',
              description_p := Some ''Private subnets (Choose two)''\<rparr>"

definition DBSubnets_props :: CfnParameterProps where
  "DBSubnets_props =
     no_props\<lparr>type_p := Some ''List<AWS::EC2::Subnet::Id>'',
              description_p := Some ''Database subnets (Choose two)''\<rparr>"

definition MinContainers_props :: CfnParameterProps where
  "MinContainers_props =
     no_props\<lparr>type_p := Some ''Number'',
              description_p := Some ''minimum containers count'',
              default_p := Some (Num 2), minValue := Some 2\<rparr>"

definition MaxContainers_props :: CfnParameterProps where
  "MaxContainers_props =
     no_props\<lparr>type_p := Some ''Number'',
              description_p := Some ''maximum containers count'',
              default_p := Some (Num 10), minValue := Some 2\<rparr>"

definition AutoScalingTargetCpuUtilization_props :: CfnParameterProps where
  "AutoScalingTargetCpuUtilization_props =
     no_props\<lparr>type_p := Some ''Number'',
              description_p := Some ''Auto scaling target cpu utilization'',
              default_p := Some (Num 75), minValue := Some 0\<rparr>"

definition JavaOpts_props :: CfnParameterProps where
  "JavaOpts_props =
     no_props\<lparr>type_p := Some ''String'',
              description_p := Some ''JAVA_OPTS environment variable''\<rparr>"

definition KeycloakVersion_props :: "(KeycloakVersion \<Rightarrow> string) \<Rightarrow> CfnParameterProps" where
  "KeycloakVersion_props vtext =
     no_props\<lparr>type_p := Some ''String'',
              description_p := Some (versions_description vtext),
              default_p := Some (Str ''cb.15.0.2'')\<rparr>"

text \<open>
  The constructor. \<^verbatim>\<open>scope\<close> and \<^verbatim>\<open>id\<close> only go to \<^verbatim>\<open>super\<close>, which gives the stack
  before any declaration. \<open>props = None\<close> is the call that leaves the properties out, so
  that they are \<^verbatim>\<open>{}\<close> and both flags read \<^verbatim>\<open>undefined\<close>. \<open>VERSION\<close> is \<^verbatim>\<open>process.env.VERSION\<close>, which
  a template literal shows as \<^verbatim>\<open>undefined\<close> when it is not set. The result is the stack and
  the properties \<^verbatim>\<open>KeyCloak\<close> is created with.
\<close>

definition KeycloakStack_new ::
  "(string \<Rightarrow> string) \<Rightarrow> (KeycloakVersion \<Rightarrow> string) \<Rightarrow> string option
     \<Rightarrow> 'a KeycloakStackProps_scheme option \<Rightarrow> (KeycloakStack \<times> KeyCloakProps) option" where
  "KeycloakStack_new lid vtext VERSION props =
     (let props_auroraServerless = flag_of auroraServerless props;
          props_fromExistingVPC = flag_of fromExistingVPC props;
          this = KeycloakStack_init;
          dbMsg = (if truthy props_auroraServerless then ''using aurora serverless'' else ''rds mysql'');
          vpcMsg = (if truthy props_fromExistingVPC then ''existing vpc'' else ''new vpc'');
          this = setDescription this
                   (''(SO8021) - Deploy keycloak '' @ dbMsg @ '' with '' @ vpcMsg
                    @ ''. template version: ''
                    @ (case VERSION of None \<Rightarrow> ''undefined'' | Some v \<Rightarrow> v));
          (certificateArnParam, this) = makeParam lid this ''CertificateArn''
             CertificateArn_props
      in do {
        this \<leftarrow> addGroupParam this
                 [(''Application Load Balancer Settings'', [Some certificateArnParam])];
        let this = this\<lparr>keycloakSettings := (keycloakSettings this)
                          \<lparr>certificateArn := valueAsString certificateArnParam\<rparr>\<rparr>;
        this \<leftarrow>
          (if \<not> truthy props_auroraServerless then
             (let (databaseInstanceType_p, this) = makeParam lid this ''DatabaseInstanceType''
                    DatabaseInstanceType_props
              in do {
                this \<leftarrow> addGroupParam this
                         [(''Database Instance Settings'', [Some databaseInstanceType_p])];
                Some (this\<lparr>keycloakSettings := (keycloakSettings this)
                        \<lparr>databaseInstanceType :=
                           Some (InstanceType (valueAsString databaseInstanceType_p))\<rparr>\<rparr>)
              })
           else Some this);
        this \<leftarrow>
          (if truthy props_fromExistingVPC then
             (let (vpcIdParam, this) = makeParam lid this ''VpcId''
                    VpcId_props;
                  (pubSubnetsParam, this) = makeParam lid this ''PubSubnets''
                    PubSubnets_props;
                  (privSubnetsParam, this) = makeParam lid this ''PrivSubnets''
                    PrivSubnets_props;
                  (dbSubnetsParam, this) = makeParam lid this ''DBSubnets''
                    DBSubnets_props
              in do {
                this \<leftarrow> addGroupParam this
                         [(''VPC Settings'',
                           [Some vpcIdParam, Some pubSubnetsParam, Some privSubnetsParam,
                            Some dbSubnetsParam])];
                let azs = [''a'', ''b''];
                let vpc_v = fromVpcAttributes
                      \<lparr>vpcId = valueAsString vpcIdParam,
                       vpcCidrBlock = Aws_NO_VALUE,
                       availabilityZones = azs,
                       publicSubnetIds =
                         map (\<lambda>(index, _). Fn_select index (valueAsList pubSubnetsParam))
                           (enumerate 0 azs),
                       privateSubnetIds =
                         map (\<lambda>(index, _). Fn_select index (valueAsList privSubnetsParam))
                           (enumerate 0 azs),
                       isolatedSubnetIds =
                         map (\<lambda>(index, _). Fn_select index (valueAsList dbSubnetsParam))
                           (enumerate 0 azs)\<rparr>;
                Some (this\<lparr>keycloakSettings := (keycloakSettings this)
                        \<lparr>vpc := Some vpc_v,
                         publicSubnets := Some \<lparr>subnets = publicSubnets_of vpc_v\<rparr>,
                         privateSubnets := Some \<lparr>subnets = privateSubnets_of vpc_v\<rparr>,
                         databaseSubnets := Some \<lparr>subnets = isolatedSubnets_of vpc_v\<rparr>\<rparr>\<rparr>)
              })
           else Some this);
        let (minContainersParam, this) = makeParam lid this ''MinContainers''
              MinContainers_props;
        let (maxContainersParam, this) = makeParam lid this ''MaxContainers''
              MaxContainers_props;
        let (targetCpuUtilizationParam, this) = makeParam lid this ''AutoScalingTargetCpuUtilization''
              AutoScalingTargetCpuUtilization_props;
        this \<leftarrow> addGroupParam this
                 [(''AutoScaling Settings'',
                   [Some minContainersParam, Some maxContainersParam,
                    Some targetCpuUtilizationParam])];
        let (javaOptsParam, this) = makeParam lid this ''JavaOpts''
              JavaOpts_props;
        this \<leftarrow> addGroupParam this [(''Environment variable'', [Some javaOptsParam])];
        let (keycloakVersion_p, this) = makeParam lid this ''Keycloak Version''
              (KeycloakVersion_props vtext);
        this \<leftarrow> addGroupParam this [(''Keycloak Version'', [Some keycloakVersion_p])];
        Some (this,
              \<lparr>vpc_k = vpc (keycloakSettings this),
               publicSubnets_k = publicSubnets (keycloakSettings this),
               privateSubnets_k = privateSubnets (keycloakSettings this),
               databaseSubnets_k = databaseSubnets (keycloakSettings this),
               certificateArn_k = certificateArn (keycloakSettings this),
               auroraServerless_k = props_auroraServerless,
               databaseInstanceType_k = databaseInstanceType (keycloakSettings this),
               stickinessCookieDuration = Duration_days 7,
               nodeCount = valueAsNumber minContainersParam,
               autoScaleTask =
                 \<lparr>min_t = valueAsNumber minContainersParam,
                  max_t = valueAsNumber maxContainersParam,
                  targetCpuUtilization = valueAsNumber targetCpuUtilizationParam\<rparr>,
               env = \<lparr>JAVA_OPTS = valueAsString javaOptsParam\<rparr>,
               keycloakVersion = KeycloakVersion_of (valueAsString keycloakVersion_p)\<rparr>)
      })"

text \<open>The parameter a stack declared under a construct identifier.\<close>

definition declared_param :: "'a SolutionStack_scheme \<Rightarrow> string \<Rightarrow> CfnParameter option" where
  "declared_param this ident = find (\<lambda>p. node_id p = ident) (parameters this)"



section \<open>The constructor in closed form\<close>

text \<open>
  What the constructor leaves behind, written out for each pair of modes: the parameters in
  the order of their declaration, the groups in the order of their first registration, the
  settings and the properties handed to \<^verbatim>\<open>KeyCloak\<close>. The constructor is proved equal to
  this form below; the properties of the constructor are read off it.
\<close>

definition expected_description :: "bool \<Rightarrow> bool \<Rightarrow> string option \<Rightarrow> string" where
  "expected_description serverless existing VERSION =
     ''(SO8021) - Deploy keycloak ''
     @ (if serverless then ''using aurora serverless'' else ''rds mysql'')
     @ '' with '' @ (if existing then ''existing vpc'' else ''new vpc'')
     @ ''. template version: '' @ (case VERSION of None \<Rightarrow> ''undefined'' | Some v \<Rightarrow> v)"

definition expected_parameters ::
  "(string \<Rightarrow> string) \<Rightarrow> (KeycloakVersion \<Rightarrow> string) \<Rightarrow> bool \<Rightarrow> bool \<Rightarrow> CfnParameter list" where
  "expected_parameters lid vtext serverless existing =
     [CfnParameter_new lid ''CertificateArn'' CertificateArn_props]
     @ (if serverless then []
        else [CfnParameter_new lid ''DatabaseInstanceType'' DatabaseInstanceType_props])
     @ (if existing
        then [CfnParameter_new lid ''VpcId'' VpcId_props,
              CfnParameter_new lid ''PubSubnets'' PubSubnets_props,
              CfnParameter_new lid ''PrivSubnets'' PrivSubnets_props,
              CfnParameter_new lid ''DBSubnets'' DBSubnets_props]
        else [])
     @ [CfnParameter_new lid ''MinContainers'' MinContainers_props,
        CfnParameter_new lid ''MaxContainers'' MaxContainers_props,
        CfnParameter_new lid ''AutoScalingTargetCpuUtilization'' AutoScalingTargetCpuUtilization_props,
        CfnParameter_new lid ''JavaOpts'' JavaOpts_props,
        CfnParameter_new lid ''Keycloak Version'' (KeycloakVersion_props vtext)]"

definition expected_groups ::
  "(string \<Rightarrow> string) \<Rightarrow> (KeycloakVersion \<Rightarrow> string) \<Rightarrow> bool \<Rightarrow> bool \<Rightarrow> param_array properties" where
  "expected_groups lid vtext serverless existing =
     [(''Application Load Balancer Settings'',
       [Some (CfnParameter_new lid ''CertificateArn'' CertificateArn_props)])]
     @ (if serverless then []
        else [(''Database Instance Settings'',
               [Some (CfnParameter_new lid ''DatabaseInstanceType'' DatabaseInstanceType_props)])])
     @ (if existing
        then [(''VPC Settings'',
               [Some (CfnParameter_new lid ''VpcId'' VpcId_props),
                Some (CfnParameter_new lid ''PubSubnets'' PubSubnets_props),
                Some (CfnParameter_new lid ''PrivSubnets'' PrivSubnets_props),
                Some (CfnParameter_new lid ''DBSubnets'' DBSubnets_props)])]
        else [])
     @ [(''AutoScaling Settings'',
         [Some (CfnParameter_new lid ''MinContainers'' MinContainers_props),
          Some (CfnParameter_new lid ''MaxContainers'' MaxContainers_props),
          Some (CfnParameter_new lid ''AutoScalingTargetCpuUtilization''
                  AutoScalingTargetCpuUtilization_props)]),
        (''Environment variable'', [Some (CfnParameter_new lid ''JavaOpts'' JavaOpts_props)]),
        (''Keycloak Version'',
         [Some (CfnParameter_new lid ''Keycloak Version'' (KeycloakVersion_props vtext))])]"

definition selected_two :: "(string \<Rightarrow> string) \<Rightarrow> string \<Rightarrow> CfnParameterProps \<Rightarrow> string_token list" where
  "selected_two lid ident props =
     [Fn_select 0 (valueAsList (CfnParameter_new lid ident props)),
      Fn_select 1 (valueAsList (CfnParameter_new lid ident props))]"

definition expected_vpc :: "(string \<Rightarrow> string) \<Rightarrow> IVpc" where
  "expected_vpc lid =
     fromVpcAttributes
       \<lparr>vpcId = valueAsString (CfnParameter_new lid ''VpcId'' VpcId_props),
        vpcCidrBlock = Aws_NO_VALUE,
        availabilityZones = [''a'', ''b''],
        publicSubnetIds = selected_two lid ''PubSubnets'' PubSubnets_props,
        privateSubnetIds = selected_two lid ''PrivSubnets'' PrivSubnets_props,
        isolatedSubnetIds = selected_two lid ''DBSubnets'' DBSubnets_props\<rparr>"

definition expected_settings :: "(string \<Rightarrow> string) \<Rightarrow> bool \<Rightarrow> bool \<Rightarrow> KeycloakSettings" where
  "expected_settings lid serverless existing =
     \<lparr>certificateArn = valueAsString (CfnParameter_new lid ''CertificateArn'' CertificateArn_props),
      vpc = (if existing then Some (expected_vpc lid) else None),
      publicSubnets =
        (if existing then Some \<lparr>subnets = publicSubnets_of (expected_vpc lid)\<rparr> else None),
      privateSubnets =
        (if existing then Some \<lparr>subnets = privateSubnets_of (expected_vpc lid)\<rparr> else None),
      databaseSubnets =
        (if existing then Some \<lparr>subnets = isolatedSubnets_of (expected_vpc lid)\<rparr> else None),
      databaseInstanceType =
        (if serverless then None
         else Some (InstanceType (valueAsString
                (CfnParameter_new lid ''DatabaseInstanceType'' DatabaseInstanceType_props))))\<rparr>"

definition expected_props ::
  "(string \<Rightarrow> string) \<Rightarrow> (KeycloakVersion \<Rightarrow> string) \<Rightarrow> bool option \<Rightarrow> bool \<Rightarrow> KeyCloakProps" where
  "expected_props lid vtext flag existing =
     \<lparr>vpc_k = vpc (expected_settings lid (truthy flag) existing),
      publicSubnets_k = publicSubnets (expected_settings lid (truthy flag) existing),
      privateSubnets_k = privateSubnets (expected_settings lid (truthy flag) existing),
      databaseSubnets_k = databaseSubnets (expected_settings lid (truthy flag) existing),
      certificateArn_k = certificateArn (expected_settings lid (truthy flag) existing),
      auroraServerless_k = flag,
      databaseInstanceType_k = databaseInstanceType (expected_settings lid (truthy flag) existing),
      stickinessCookieDuration = Duration_days 7,
      nodeCount = valueAsNumber (CfnParameter_new lid ''MinContainers'' MinContainers_props),
      autoScaleTask =
        \<lparr>min_t = valueAsNumber (CfnParameter_new lid ''MinContainers'' MinContainers_props),
         max_t = valueAsNumber (CfnParameter_new lid ''MaxContainers'' MaxContainers_props),
         targetCpuUtilization =
           valueAsNumber (CfnParameter_new lid ''AutoScalingTargetCpuUtilization''
                            AutoScalingTargetCpuUtilization_props)\<rparr>,
      env = \<lparr>JAVA_OPTS = valueAsString (CfnParameter_new lid ''JavaOpts'' JavaOpts_props)\<rparr>,
      keycloakVersion =
        KeycloakVersion_of (valueAsString
          (CfnParameter_new lid ''Keycloak Version'' (KeycloakVersion_props vtext)))\<rparr>"

text \<open>The arrays of parameters as the object stores them.\<close>

definition stored :: "param_array properties \<Rightarrow> element list properties" where
  "stored props = map (\<lambda>(key, params). (key, map Held params)) props"

definition expected_stack ::
  "(string \<Rightarrow> string) \<Rightarrow> (KeycloakVersion \<Rightarrow> string) \<Rightarrow> string option \<Rightarrow> bool \<Rightarrow> bool \<Rightarrow> KeycloakStack" where
  "expected_stack lid vtext VERSION serverless existing =
     \<lparr>paramGroup = \<lparr>own = stored (expected_groups lid vtext serverless existing), proto = None\<rparr>,
      templateOptions =
        \<lparr>description = Some (expected_description serverless existing VERSION),
         metadata = Some [(interface_key,
           \<lparr>ParameterGroups =
              all_groups (stored (expected_groups lid vtext serverless existing))
                (own_keys (stored (expected_groups lid vtext serverless existing)))\<rparr>)]\<rparr>,
      parameters = expected_parameters lid vtext serverless existing,
      keycloakSettings = expected_settings lid serverless existing\<rparr>"

text \<open>
  Modelled from the spec: the resolved settings (certificate reference, optional network
  reference with its three subnet selections, optional database instance class,
  autoscaling bounds, environment, version tag), as the template engine resolves the
  properties handed to \<^verbatim>\<open>KeyCloak\<close> for the parameter values \<open>supplied\<close>.
\<close>

fun resolve_instance_type :: "(string \<rightharpoonup> jsvalue) \<Rightarrow> InstanceType \<Rightarrow> string option" where
  "resolve_instance_type supplied (InstanceType t) = resolve_string supplied t"

definition resolve_selection :: "(string \<rightharpoonup> jsvalue) \<Rightarrow> SubnetSelection \<Rightarrow> string option list" where
  "resolve_selection supplied sel = map (resolve_subnet supplied) (subnets sel)"

fun resolve_version :: "(string \<rightharpoonup> jsvalue) \<Rightarrow> KeycloakVersion \<Rightarrow> string option" where
  "resolve_version supplied (KeycloakVersion_of t) = resolve_string supplied t"
| "resolve_version supplied _ = None"

record DeploymentSettings =
  certificate :: "string option"
  network :: "string option option"
  publicSelection :: "string option list option"
  privateSelection :: "string option list option"
  databaseSelection :: "string option list option"
  instanceClass :: "string option option"
  autoscalingMin :: "int option"
  autoscalingMax :: "int option"
  autoscalingTarget :: "int option"
  environment :: "string option"
  versionTag :: "string option"

definition resolve_settings :: "(string \<rightharpoonup> jsvalue) \<Rightarrow> KeyCloakProps \<Rightarrow> DeploymentSettings" where
  "resolve_settings supplied kc =
     \<lparr>certificate = resolve_string supplied (certificateArn_k kc),
      network = map_option (\<lambda>v. resolve_string supplied (vpcId (attributes v))) (vpc_k kc),
      publicSelection = map_option (resolve_selection supplied) (publicSubnets_k kc),
      privateSelection = map_option (resolve_selection supplied) (privateSubnets_k kc),
      databaseSelection = map_option (resolve_selection supplied) (databaseSubnets_k kc),
      instanceClass = map_option (resolve_instance_type supplied) (databaseInstanceType_k kc),
      autoscalingMin = resolve_number supplied (min_t (autoScaleTask kc)),
      autoscalingMax = resolve_number supplied (max_t (autoScaleTask kc)),
      autoscalingTarget = resolve_number supplied (targetCpuUtilization (autoScaleTask kc)),
      environment = resolve_string supplied (JAVA_OPTS (env kc)),
      versionTag = resolve_version supplied (keycloakVersion kc)\<rparr>"

text \<open>
  An example of the text of the five named versions, for the concrete runs below.
\<close>

fun sample_vtext :: "KeycloakVersion \<Rightarrow> string" where
  "sample_vtext V12_0_4 = ''12.0.4''"
| "sample_vtext V15_0_0 = ''15.0.0''"
| "sample_vtext V15_0_1 = ''15.0.1''"
| "sample_vtext V15_0_2 = ''15.0.2''"
| "sample_vtext cbV15_0_2 = ''cb.15.0.2''"
| "sample_vtext (KeycloakVersion_of t) = []"

text \<open>The parameter the constructor declares for the version, when it returns.\<close>

definition version_param ::
  "(string \<Rightarrow> string) \<Rightarrow> (KeycloakVersion \<Rightarrow> string) \<Rightarrow> string option
     \<Rightarrow> 'a KeycloakStackProps_scheme option \<Rightarrow> CfnParameter option" where
  "version_param lid vtext VERSION props =
     (case KeycloakStack_new lid vtext VERSION props of
        None \<Rightarrow> None
      | Some (this, kc) \<Rightarrow> declared_param this ''Keycloak Version'')"

section \<open>Properties of the group registry\<close>

subsection \<open>Own properties\<close>

lemma own_get_own_set:
  "own_get (own_set props key v) k = (if k = key then Some v else own_get props k)"
  by (induction props) (auto simp: own_get_def)

lemma keys_own_set: "fst ` set (own_set props key v) = insert key (fst ` set props)"
  by (induction props) force+

lemma set_own_keys: "set (own_keys props) = fst ` set props"
  by (auto simp: own_keys_def Let_def)

lemma own_keys_single: "own_keys [(key, v)] = [key]"
  by (simp add: own_keys_def)

lemma own_get_in_keys: "key \<in> fst ` set props \<Longrightarrow> \<exists>v. own_get props key = Some v"
  by (induction props) (auto simp: own_get_def)

lemma own_get_keys: "(own_get props key \<noteq> None) = (key \<in> fst ` set props)"
  by (simp add: own_get_def map_of_eq_None_iff)

lemma obj_get_own: "own_get (own pg) key = Some elems \<Longrightarrow> obj_get pg key = Array elems"
  by (simp add: obj_get_def)

subsection \<open>Exporting never fails\<close>

lemma mkgrps_all_groups:
  "set keys \<subseteq> fst ` set (own pg) \<Longrightarrow> mkgrps pg keys = Some (all_groups (own pg) keys)"
proof (induction keys)
  case Nil
  then show ?case by (simp add: all_groups_def)
next
  case (Cons key keys)
  then obtain v where "own_get (own pg) key = Some v"
    using own_get_in_keys [of key "own pg"] by auto
  with Cons show ?case by (simp add: all_groups_def obj_get_own)
qed

lemma setParamGroups_eq:
  "setParamGroups this =
     Some (this\<lparr>templateOptions := (templateOptions this)
             \<lparr>metadata := Some (own_set (case metadata (templateOptions this) of None \<Rightarrow> [] | Some m \<Rightarrow> m)
                 interface_key
                 \<lparr>ParameterGroups =
                    all_groups (own (paramGroup this)) (obj_keys (paramGroup this))\<rparr>)\<rparr>\<rparr>)"
  by (simp add: setParamGroups_def Let_def mkgrps_all_groups set_own_keys obj_keys_def)

lemma exportGroups_setParamGroups:
  "setParamGroups this = Some this' \<Longrightarrow>
     exportGroups this' = all_groups (own (paramGroup this)) (obj_keys (paramGroup this))
     \<and> paramGroup this' = paramGroup this"
  by (auto simp: setParamGroups_eq exportGroups_def own_get_own_set)

lemma addGroupParam_loop_Some:
  "set keys \<subseteq> fst ` set props \<Longrightarrow> \<exists>pg'. addGroupParam_loop pg props keys = Some pg'"
proof (induction keys arbitrary: pg)
  case Nil
  then show ?case by simp
next
  case (Cons key keys)
  then obtain v where "own_get props key = Some v"
    using own_get_in_keys [of key props] by auto
  with Cons show ?case by simp
qed

lemma find_all_groups:
  "key \<in> set keys \<Longrightarrow>
     find (\<lambda>g. default_l (Label g) = key) (all_groups props keys)
       = Some (mkgrp key (the (own_get props key)))"
  by (induction keys) (auto simp: all_groups_def mkgrp_def)

lemma find_all_groups_None:
  "key \<notin> set keys \<Longrightarrow> find (\<lambda>g. default_l (Label g) = key) (all_groups props keys) = None"
  by (induction keys) (auto simp: all_groups_def mkgrp_def)

lemma all_groups_no_empty: "g \<in> set (all_groups props keys) \<Longrightarrow> [] \<notin> set (Parameters g)"
  by (auto simp: all_groups_def mkgrp_def truthy_string_def)

text \<open>
  C3. Whatever the stack holds and whatever object is registered, with elements that are
  \<^verbatim>\<open>undefined\<close> or parameters whose identifier is empty among them, \<^verbatim>\<open>addGroupParam\<close>
  returns (no TypeError), no exported group lists an empty identifier, and the group of
  each label the object owns lists the identifiers stored under it, in their order, without
  the empty ones.
\<close>

theorem export_drops_empty_identifiers:
  fixes this :: "'a SolutionStack_scheme"
  shows "\<exists>this'. addGroupParam this props = Some this'
     \<and> (\<forall>g \<in> set (exportGroups this'). [] \<notin> set (Parameters g))
     \<and> (\<forall>key elems. own_get (own (paramGroup this')) key = Some elems \<longrightarrow>
           group_ids this' key = Some (filter (\<lambda>i. i \<noteq> []) (map element_id elems)))"
proof -
  obtain pg where pg: "addGroupParam_loop (paramGroup this) props (own_keys props) = Some pg"
    using addGroupParam_loop_Some [of "own_keys props" props "paramGroup this"]
    by (auto simp: set_own_keys)
  obtain this' where t: "setParamGroups (this\<lparr>paramGroup := pg\<rparr>) = Some this'"
    by (simp add: setParamGroups_eq)
  have e: "exportGroups this' = all_groups (own pg) (obj_keys pg)" and p: "paramGroup this' = pg"
    using exportGroups_setParamGroups [OF t] by simp_all
  have a: "addGroupParam this props = Some this'"
    by (simp add: addGroupParam_def pg t)
  have n: "\<forall>g \<in> set (exportGroups this'). [] \<notin> set (Parameters g)"
    using all_groups_no_empty by (auto simp: e)
  have k: "group_ids this' key = Some (filter (\<lambda>i. i \<noteq> []) (map element_id elems))"
    if "own_get (own (paramGroup this')) key = Some elems" for key elems
  proof -
    have "key \<in> set (obj_keys pg)"
      using that map_of_SomeD [of "own pg" key elems]
      by (force simp: p own_get_def set_own_keys obj_keys_def)
    then show ?thesis
      using that
      by (simp add: group_ids_def e find_all_groups p mkgrp_def truthy_string_def [abs_def])
  qed
  show ?thesis using a n k by blast
qed

theorem export_drops_empty_identifiers_witness:
  "\<exists>this'. addGroupParam SolutionStack_init
       [(''G'', [None, Some \<lparr>node_id = ''A'', logicalId = [], declared = no_props\<rparr>,
                 Some \<lparr>node_id = ''B'', logicalId = ''B'', declared = no_props\<rparr>])] = Some this'
     \<and> exportGroups this' = [\<lparr>Label = \<lparr>default_l = ''G''\<rparr>, Parameters = [''B'']\<rparr>]"
proof -
  obtain this' where a: "addGroupParam SolutionStack_init
       [(''G'', [None, Some \<lparr>node_id = ''A'', logicalId = [], declared = no_props\<rparr>,
                 Some \<lparr>node_id = ''B'', logicalId = ''B'', declared = no_props\<rparr>])] = Some this'"
    and n: "\<forall>g \<in> set (exportGroups this'). [] \<notin> set (Parameters g)"
    using export_drops_empty_identifiers [of SolutionStack_init
       "[(''G'', [None, Some \<lparr>node_id = ''A'', logicalId = [], declared = no_props\<rparr>,
                 Some \<lparr>node_id = ''B'', logicalId = ''B'', declared = no_props\<rparr>])]"] by blast
  have "exportGroups this' = [\<lparr>Label = \<lparr>default_l = ''G''\<rparr>, Parameters = [''B'']\<rparr>]"
    using a
    by (auto simp add: addGroupParam_def setParamGroups_def own_keys_single own_get_def
        obj_get_def obj_set_def obj_keys_def Object_prototype_names_def
        SolutionStack_init_def Let_def mkgrp_def param_id_def truthy_string_def exportGroups_def)
  with a show ?thesis by blast
qed

subsection \<open>The order of a group\<close>

lemma register_eq:
  "\<exists>this'. register this label params = Some this'
     \<and> paramGroup this' = obj_set (paramGroup this) label (map Held params @ registered this label)
     \<and> exportGroups this' = all_groups (own (paramGroup this')) (obj_keys (paramGroup this'))"
proof -
  let ?pg = "obj_set (paramGroup this) label (map Held params @ registered this label)"
  obtain this' where t: "setParamGroups (this\<lparr>paramGroup := ?pg\<rparr>) = Some this'"
    by (simp add: setParamGroups_eq)
  have "own_get [(label, params)] label = Some params"
    by (simp add: own_get_def)
  then have "register this label params = Some this'"
    by (simp add: register_def addGroupParam_def own_keys_single registered_def [symmetric] t)
  then show ?thesis
    using exportGroups_setParamGroups [OF t] by simp
qed

lemma obj_get_same:
  assumes "own_get (own pg') k = own_get (own pg) k" and "proto pg' = proto pg"
  shows "obj_get pg' k = obj_get pg k"
  unfolding obj_get_def assms by (rule refl)

lemma obj_get_obj_set:
  assumes "key \<noteq> ''__proto__''"
  shows "obj_get (obj_set pg key v) k = (if k = key then Array v else obj_get pg k)"
proof -
  have s: "obj_set pg key v = pg\<lparr>own := own_set (own pg) key v\<rparr>"
    using assms by (simp add: obj_set_def)
  show ?thesis
  proof (cases "k = key")
    case True
    then show ?thesis by (simp add: s obj_get_own own_get_own_set)
  next
    case False
    then show ?thesis
      using obj_get_same [where pg' = "pg\<lparr>own := own_set (own pg) key v\<rparr>" and k = k and pg = pg]
      by (simp add: s own_get_own_set)
  qed
qed

lemma stored_ids_Held: "stored_ids (map Held params) = filtered_ids params"
  by (simp add: stored_ids_def filtered_ids_def o_def)

lemma stored_ids_append: "stored_ids (xs @ ys) = stored_ids xs @ stored_ids ys"
  by (simp add: stored_ids_def)

text \<open>
  A label that is neither \<^verbatim>\<open>__proto__\<close> nor an array index reads, where the object does
  not own it, nothing or a value that is no parameter, whatever the prototype is: no
  identifier either way.
\<close>

lemma inherited_ids_empty:
  assumes "own_get (own pg) l = None" and "l \<noteq> ''__proto__''" and "\<not> is_array_index l"
  shows "stored_ids (concat_arg (obj_get pg l)) = []"
  using assms
  by (simp add: obj_get_def stored_ids_def truthy_string_def split: option.split)

lemma ids_after_proto_assignment:
  assumes "l \<noteq> ''__proto__''" and "\<not> is_array_index l"
  shows "stored_ids (concat_arg (obj_get (obj_set pg ''__proto__'' v) l))
           = stored_ids (concat_arg (obj_get pg l))"
proof (cases "own_get (own pg) ''__proto__''")
  case (Some a)
  then have "obj_set pg ''__proto__'' v = pg\<lparr>own := own_set (own pg) ''__proto__'' v\<rparr>"
    by (simp add: obj_set_def)
  then show ?thesis
    using assms(1)
      obj_get_same [where pg' = "pg\<lparr>own := own_set (own pg) ''__proto__'' v\<rparr>" and k = l and pg = pg]
    by (simp add: own_get_own_set)
next
  case None
  then have s: "obj_set pg ''__proto__'' v = pg\<lparr>proto := Some v\<rparr>"
    by (simp add: obj_set_def)
  show ?thesis
  proof (cases "own_get (own pg) l")
    case (Some elems)
    then show ?thesis by (simp add: s obj_get_own)
  next
    case None
    then have "own_get (own (pg\<lparr>proto := Some v\<rparr>)) l = None" by simp
    then show ?thesis
      using None assms inherited_ids_empty [where pg = pg and l = l]
        inherited_ids_empty [where pg = "pg\<lparr>proto := Some v\<rparr>" and l = l]
      by (simp add: s)
  qed
qed

lemma own_keys_obj_set:
  "fst ` set (own pg) \<subseteq> fst ` set (own (obj_set pg key v))"
  "key \<noteq> ''__proto__'' \<Longrightarrow> key \<in> fst ` set (own (obj_set pg key v))"
  by (auto simp: obj_set_def keys_own_set)

lemma registered_register:
  assumes "register this label params = Some this'"
    and "l \<noteq> ''__proto__''" and "\<not> is_array_index l \<or> label \<noteq> ''__proto__''"
  shows "stored_ids (registered this' l)
           = (if l = label then filtered_ids params @ stored_ids (registered this l)
              else stored_ids (registered this l))"
proof -
  have pg: "paramGroup this' = obj_set (paramGroup this) label (map Held params @ registered this label)"
    using assms(1) register_eq [of this label params] by auto
  show ?thesis
  proof (cases "label = ''__proto__''")
    case True
    then show ?thesis
      using assms(2,3) ids_after_proto_assignment [where l = l and pg = "paramGroup this"]
      by (simp add: registered_def pg)
  next
    case False
    then show ?thesis
      by (simp add: registered_def pg obj_get_obj_set stored_ids_append stored_ids_Held)
  qed
qed

lemma register_all_registered:
  assumes "l \<noteq> ''__proto__''" and "\<not> is_array_index l \<or> ''__proto__'' \<notin> fst ` set calls"
  shows "\<exists>this'. register_all this calls = Some this'
     \<and> stored_ids (registered this' l)
         = concat (map (\<lambda>c. filtered_ids (snd c)) (rev (filter (\<lambda>c. fst c = l) calls)))
           @ stored_ids (registered this l)
     \<and> fst ` set (own (paramGroup this)) \<union> (fst ` set calls - {''__proto__''})
         \<subseteq> fst ` set (own (paramGroup this'))
     \<and> (calls \<noteq> [] \<longrightarrow>
          exportGroups this' = all_groups (own (paramGroup this')) (obj_keys (paramGroup this')))"
  using assms(2)
proof (induction calls arbitrary: this)
  case Nil
  then show ?case by simp
next
  case (Cons c calls)
  obtain label params where c: "c = (label, params)" by (cases c)
  have rest: "\<not> is_array_index l \<or> ''__proto__'' \<notin> fst ` set calls"
    and here: "\<not> is_array_index l \<or> label \<noteq> ''__proto__''"
    using Cons.prems by (auto simp: c)
  obtain s1 where s1: "register this label params = Some s1"
    and pg1: "paramGroup s1 = obj_set (paramGroup this) label (map Held params @ registered this label)"
    and ex1: "exportGroups s1 = all_groups (own (paramGroup s1)) (obj_keys (paramGroup s1))"
    using register_eq [of this label params] by blast
  obtain s2 where s2: "register_all s1 calls = Some s2"
    and r2: "stored_ids (registered s2 l)
               = concat (map (\<lambda>c. filtered_ids (snd c)) (rev (filter (\<lambda>c. fst c = l) calls)))
                 @ stored_ids (registered s1 l)"
    and k2: "fst ` set (own (paramGroup s1)) \<union> (fst ` set calls - {''__proto__''})
               \<subseteq> fst ` set (own (paramGroup s2))"
    and ex2: "calls \<noteq> [] \<longrightarrow>
                exportGroups s2 = all_groups (own (paramGroup s2)) (obj_keys (paramGroup s2))"
    using Cons.IH [OF rest, of s1] by blast
  have a: "register_all this (c # calls) = Some s2"
    by (simp add: c s1 s2)
  have b: "stored_ids (registered s2 l)
             = concat (map (\<lambda>c. filtered_ids (snd c)) (rev (filter (\<lambda>c. fst c = l) (c # calls))))
               @ stored_ids (registered this l)"
    by (simp add: r2 registered_register [OF s1 assms(1) here] c)
  have d: "fst ` set (own (paramGroup this)) \<union> (fst ` set (c # calls) - {''__proto__''})
             \<subseteq> fst ` set (own (paramGroup s2))"
    using k2
      own_keys_obj_set [where pg = "paramGroup this" and key = label
        and v = "map Held params @ registered this label"]
    by (auto simp: pg1 c)
  have e: "exportGroups s2 = all_groups (own (paramGroup s2)) (obj_keys (paramGroup s2))"
  proof (cases calls)
    case Nil
    then show ?thesis using s2 ex1 by simp
  next
    case (Cons _ _)
    then show ?thesis using ex2 by simp
  qed
  show ?case using a b d e by blast
qed

text \<open>
  The reverse call order, for every label but \<^verbatim>\<open>__proto__\<close>, and for a label that is an array index
  as long as no call is on \<^verbatim>\<open>__proto__\<close>: after any sequence of calls
  \<^verbatim>\<open>addGroupParam({ label: params })\<close>, the exported group of a label that was registered
  lists the filtered identifiers of the calls on that label, the last call first and each
  call's own identifiers in their order, followed by what the label read before the first
  call.
\<close>

lemma register_reverse_call_order_ordinary_labels:
  fixes this :: "'a SolutionStack_scheme"
  assumes "label \<in> fst ` set calls" and "label \<noteq> ''__proto__''"
    and "\<not> is_array_index label \<or> ''__proto__'' \<notin> fst ` set calls"
  shows "\<exists>this'. register_all this calls = Some this'
     \<and> group_ids this' label =
         Some (concat (map (\<lambda>c. filtered_ids (snd c)) (rev (filter (\<lambda>c. fst c = label) calls)))
               @ stored_ids (registered this label))"
proof -
  obtain this' where s: "register_all this calls = Some this'"
    and r: "stored_ids (registered this' label)
              = concat (map (\<lambda>c. filtered_ids (snd c)) (rev (filter (\<lambda>c. fst c = label) calls)))
                @ stored_ids (registered this label)"
    and k: "fst ` set (own (paramGroup this)) \<union> (fst ` set calls - {''__proto__''})
              \<subseteq> fst ` set (own (paramGroup this'))"
    and e: "calls \<noteq> [] \<longrightarrow>
              exportGroups this' = all_groups (own (paramGroup this')) (obj_keys (paramGroup this'))"
    using register_all_registered [OF assms(2,3), of this] by blast
  have ne: "calls \<noteq> []" using assms(1) by auto
  have o: "label \<in> fst ` set (own (paramGroup this'))"
    using assms(1,2) k by auto
  then obtain elems where el: "own_get (own (paramGroup this')) label = Some elems"
    using own_get_in_keys by blast
  have "label \<in> set (obj_keys (paramGroup this'))"
    using o by (simp add: set_own_keys obj_keys_def)
  then have "group_ids this' label = Some (stored_ids elems)"
    using e ne el by (simp add: group_ids_def find_all_groups mkgrp_def stored_ids_def)
  moreover have "registered this' label = elems"
    using obj_get_own [OF el] by (simp add: registered_def)
  ultimately show ?thesis
    using s r by simp
qed

text \<open>
  C2 at the label \<^verbatim>\<open>__proto__\<close>. The first call reads \<^verbatim>\<open>Object.prototype\<close>, appends it to the
  parameters and hands the array to the inherited setter: the array becomes the prototype
  of \<^verbatim>\<open>_paramGroup\<close>, the object gets no key, and the template gets no group for the label,
  where C2 gives it the identifier \<^verbatim>\<open>PP\<close>. A later first call on the label \<^verbatim>\<open>0\<close> then reads
  element 0 of that array through the prototype and stores it behind its own parameter: the
  group \<^verbatim>\<open>0\<close> lists \<^verbatim>\<open>Q\<close> and \<^verbatim>\<open>PP\<close>, where C2 gives it \<^verbatim>\<open>Q\<close> alone.
\<close>

theorem proto_label_breaks_register_order:
  "group_ids_after SolutionStack_init
     [(''__proto__'', [Some \<lparr>node_id = ''PP'', logicalId = ''PP'', declared = no_props\<rparr>])]
     ''__proto__'' = Some None
   \<and> group_ids_after SolutionStack_init
       [(''__proto__'', [Some \<lparr>node_id = ''PP'', logicalId = ''PP'', declared = no_props\<rparr>]),
        (''0'', [Some \<lparr>node_id = ''Q'', logicalId = ''Q'', declared = no_props\<rparr>])]
       ''0'' = Some (Some [''Q'', ''PP''])"
  by (simp add: group_ids_after_def register_def addGroupParam_def own_keys_single own_get_def
      obj_get_def obj_set_def obj_keys_def setParamGroups_def mkgrp_def param_id_def
      truthy_string_def is_array_index_def is_digit_def index_value_def digit_value_def
      SolutionStack_init_def group_ids_def exportGroups_def Let_def own_keys_def)

section \<open>The constructor equals its closed form\<close>

lemma concat_arg_ordinary:
  assumes "ordinary_label label" and "proto pg = None"
  shows "concat_arg (obj_get pg label)
           = (case own_get (own pg) label of None \<Rightarrow> [] | Some old \<Rightarrow> old)"
  using assms by (simp add: obj_get_def ordinary_label_def split: option.split)

lemma obj_set_ordinary:
  assumes "ordinary_label label"
  shows "obj_set pg label v = pg\<lparr>own := own_set (own pg) label v\<rparr>"
  using assms by (simp add: obj_set_def ordinary_label_def)

lemma addGroupParam_ordinary:
  assumes "ordinary_label label"
  shows "addGroupParam
       \<lparr>paramGroup = \<lparr>own = props, proto = None\<rparr>, templateOptions = topts,
        parameters = ps, \<dots> = ext\<rparr>
       [(label, params)] =
     Some \<lparr>paramGroup =
             \<lparr>own = own_set props label
                      (map Held params @ (case own_get props label of None \<Rightarrow> [] | Some old \<Rightarrow> old)),
              proto = None\<rparr>,
           templateOptions = topts
             \<lparr>metadata := Some (own_set (case metadata topts of None \<Rightarrow> [] | Some m \<Rightarrow> m)
                 interface_key
                 \<lparr>ParameterGroups =
                    all_groups
                      (own_set props label
                         (map Held params
                          @ (case own_get props label of None \<Rightarrow> [] | Some old \<Rightarrow> old)))
                      (own_keys
                         (own_set props label
                            (map Held params
                             @ (case own_get props label of None \<Rightarrow> [] | Some old \<Rightarrow> old))))\<rparr>)\<rparr>,
           parameters = ps, \<dots> = ext\<rparr>"
proof -
  have g: "own_get [(label, params)] label = Some params"
    by (simp add: own_get_def)
  have c: "concat_arg (obj_get \<lparr>own = props, proto = None\<rparr> label)
             = (case own_get props label of None \<Rightarrow> [] | Some old \<Rightarrow> old)"
    using concat_arg_ordinary [OF assms, of "\<lparr>own = props, proto = None\<rparr>"] by simp
  show ?thesis
    by (simp add: addGroupParam_def own_keys_single g c obj_set_ordinary [OF assms]
        setParamGroups_eq obj_keys_def)
qed

lemma constructor_labels:
  "ordinary_label ''Application Load Balancer Settings''"
  "ordinary_label ''Database Instance Settings''"
  "ordinary_label ''VPC Settings''"
  "ordinary_label ''AutoScaling Settings''"
  "ordinary_label ''Environment variable''"
  "ordinary_label ''Keycloak Version''"
  by (simp_all add: ordinary_label_def Object_prototype_names_def)

lemma bind_weak_cong: "m = m' \<Longrightarrow> Option.bind m f = Option.bind m' f"
  by simp

lemmas constructor_steps =
  KeycloakStack_new_def Let_def makeParam_def addGroupParam_ordinary constructor_labels
  KeycloakStack_init_def SolutionStack_init_def setDescription_def SolutionStack.extend_def
  KeycloakStack.fields_def own_get_def

lemmas expected_defs =
  stored_def expected_stack_def expected_props_def expected_settings_def expected_vpc_def selected_two_def
  expected_groups_def expected_parameters_def expected_description_def


lemma closed_form_serverless_existing:
  assumes "truthy (flag_of auroraServerless props)" and "truthy (flag_of fromExistingVPC props)"
  shows "KeycloakStack_new lid vtext VERSION props =
     Some (expected_stack lid vtext VERSION True True,
           expected_props lid vtext (flag_of auroraServerless props) True)"
  using assms
  by (simp add: constructor_steps expected_defs
      cong: let_weak_cong bind_weak_cong prod.case_cong_weak)

lemma closed_form_serverless_new:
  assumes "truthy (flag_of auroraServerless props)" and "\<not> truthy (flag_of fromExistingVPC props)"
  shows "KeycloakStack_new lid vtext VERSION props =
     Some (expected_stack lid vtext VERSION True False,
           expected_props lid vtext (flag_of auroraServerless props) False)"
  using assms
  by (simp add: constructor_steps expected_defs
      cong: let_weak_cong bind_weak_cong prod.case_cong_weak)

lemma closed_form_instance_existing:
  assumes "\<not> truthy (flag_of auroraServerless props)" and "truthy (flag_of fromExistingVPC props)"
  shows "KeycloakStack_new lid vtext VERSION props =
     Some (expected_stack lid vtext VERSION False True,
           expected_props lid vtext (flag_of auroraServerless props) True)"
  using assms
  by (simp add: constructor_steps expected_defs
      cong: let_weak_cong bind_weak_cong prod.case_cong_weak)

lemma closed_form_instance_new:
  assumes "\<not> truthy (flag_of auroraServerless props)" and "\<not> truthy (flag_of fromExistingVPC props)"
  shows "KeycloakStack_new lid vtext VERSION props =
     Some (expected_stack lid vtext VERSION False False,
           expected_props lid vtext (flag_of auroraServerless props) False)"
  using assms
  by (simp add: constructor_steps expected_defs
      cong: let_weak_cong bind_weak_cong prod.case_cong_weak)

lemma KeycloakStack_new_closed_form:
  "KeycloakStack_new lid vtext VERSION props =
     Some (expected_stack lid vtext VERSION (truthy (flag_of auroraServerless props))
             (truthy (flag_of fromExistingVPC props)),
           expected_props lid vtext (flag_of auroraServerless props)
             (truthy (flag_of fromExistingVPC props)))"
  using closed_form_serverless_existing [of props lid vtext VERSION]
    closed_form_serverless_new [of props lid vtext VERSION]
    closed_form_instance_existing [of props lid vtext VERSION]
    closed_form_instance_new [of props lid vtext VERSION]
  by (cases "truthy (flag_of auroraServerless props)"; cases "truthy (flag_of fromExistingVPC props)")
     simp_all

section \<open>Properties of the constructor\<close>

lemma CfnParameter_new_sel [simp]:
  "node_id (CfnParameter_new lid ident props) = ident"
  "logicalId (CfnParameter_new lid ident props) = lid ident"
  "declared (CfnParameter_new lid ident props) = props"
  by (simp_all add: CfnParameter_new_def)

lemma flag_of_simps [simp]:
  "flag_of sel None = None" "flag_of sel (Some p) = sel p"
  by (simp_all add: flag_of_def)

lemma declared_param_expected:
  "declared_param (expected_stack lid vtext VERSION serverless existing) ident =
     find (\<lambda>p. node_id p = ident) (expected_parameters lid vtext serverless existing)"
  by (simp add: declared_param_def expected_stack_def)

lemma settings_expected:
  "keycloakSettings (expected_stack lid vtext VERSION serverless existing)
     = expected_settings lid serverless existing"
  by (simp add: expected_stack_def)

lemma find_database_param:
  "find (\<lambda>p. node_id p = ''DatabaseInstanceType'') (expected_parameters lid vtext serverless existing)
     = (if serverless then None
        else Some (CfnParameter_new lid ''DatabaseInstanceType'' DatabaseInstanceType_props))"
  by (simp add: expected_parameters_def)

text \<open>
  C1. For every pair of flags the constructor returns, and the database instance class of
  the settings is set exactly when \<^verbatim>\<open>auroraServerless\<close> is not true (\<^verbatim>\<open>false\<close>, or left out,
  which \<^verbatim>\<open>!props.auroraServerless\<close> treats alike); it is unset when the flag is \<^verbatim>\<open>true\<close>.
  The parameter \<^verbatim>\<open>DatabaseInstanceType\<close> is declared in exactly the same cases. When set,
  the field is the instance type of that parameter's value, which resolves to the value
  supplied for the parameter and to \<^verbatim>\<open>r5.large\<close> when none is supplied. The same field is
  handed to \<^verbatim>\<open>KeyCloak\<close>.
\<close>

theorem instance_class_set_unless_serverless:
  "\<exists>this kc. KeycloakStack_new lid vtext VERSION props = Some (this, kc)
     \<and> (databaseInstanceType (keycloakSettings this) \<noteq> None)
         = (\<not> truthy (flag_of auroraServerless props))
     \<and> databaseInstanceType_k kc = databaseInstanceType (keycloakSettings this)
     \<and> (declared_param this ''DatabaseInstanceType'' \<noteq> None)
         = (\<not> truthy (flag_of auroraServerless props))
     \<and> (\<forall>p. declared_param this ''DatabaseInstanceType'' = Some p \<longrightarrow>
           databaseInstanceType (keycloakSettings this) = Some (InstanceType (valueAsString p))
           \<and> allowedValues (declared p) = Some INSTANCE_TYPES
           \<and> resolve_instance_type supplied (InstanceType (valueAsString p))
               = (case supplied (logicalId p) of
                    None \<Rightarrow> Some ''r5.large''
                  | Some (Str s) \<Rightarrow> Some s
                  | Some _ \<Rightarrow> None))"
  by (simp add: KeycloakStack_new_closed_form declared_param_expected settings_expected
      find_database_param expected_settings_def expected_props_def resolve_param_def
      DatabaseInstanceType_props_def no_props_def split: option.split jsvalue.split)

theorem instance_class_set_unless_serverless_witness:
  "\<exists>this kc. KeycloakStack_new id sample_vtext None
        (Some \<lparr>auroraServerless = Some False, fromExistingVPC = Some False\<rparr>) = Some (this, kc)
     \<and> databaseInstanceType (keycloakSettings this) \<noteq> None
     \<and> map_option (resolve_instance_type Map.empty) (databaseInstanceType_k kc)
         = Some (Some ''r5.large'')"
proof -
  let ?props = "Some \<lparr>auroraServerless = Some False, fromExistingVPC = Some False\<rparr>"
  obtain this kc where r: "KeycloakStack_new id sample_vtext None ?props = Some (this, kc)"
    and s: "(databaseInstanceType (keycloakSettings this) \<noteq> None)
              = (\<not> truthy (flag_of auroraServerless ?props))"
    and k: "databaseInstanceType_k kc = databaseInstanceType (keycloakSettings this)"
    and d: "(declared_param this ''DatabaseInstanceType'' \<noteq> None)
              = (\<not> truthy (flag_of auroraServerless ?props))"
    and v: "\<forall>p. declared_param this ''DatabaseInstanceType'' = Some p \<longrightarrow>
           databaseInstanceType (keycloakSettings this) = Some (InstanceType (valueAsString p))
           \<and> allowedValues (declared p) = Some INSTANCE_TYPES
           \<and> resolve_instance_type Map.empty (InstanceType (valueAsString p))
               = (case Map.empty (logicalId p) of
                    None \<Rightarrow> Some ''r5.large''
                  | Some (Str s) \<Rightarrow> Some s
                  | Some _ \<Rightarrow> None)"
    using instance_class_set_unless_serverless [of id sample_vtext None ?props Map.empty]
    by (elim exE conjE)
  obtain p where p: "declared_param this ''DatabaseInstanceType'' = Some p"
    using d by (auto simp add: truthy_def flag_of_def)
  have "databaseInstanceType (keycloakSettings this) \<noteq> None"
    using s by (simp add: truthy_def flag_of_def)
  moreover have "map_option (resolve_instance_type Map.empty) (databaseInstanceType_k kc)
         = Some (Some ''r5.large'')"
    using v p k by simp
  ultimately show ?thesis
    by (intro exI [of _ this] exI [of _ kc]) (simp add: r)
qed

lemma find_network_params:
  "find (\<lambda>p. node_id p = ''VpcId'') (expected_parameters lid vtext serverless existing)
     = (if existing then Some (CfnParameter_new lid ''VpcId'' VpcId_props) else None)"
  "find (\<lambda>p. node_id p = ''PubSubnets'') (expected_parameters lid vtext serverless existing)
     = (if existing then Some (CfnParameter_new lid ''PubSubnets'' PubSubnets_props) else None)"
  "find (\<lambda>p. node_id p = ''PrivSubnets'') (expected_parameters lid vtext serverless existing)
     = (if existing then Some (CfnParameter_new lid ''PrivSubnets'' PrivSubnets_props) else None)"
  "find (\<lambda>p. node_id p = ''DBSubnets'') (expected_parameters lid vtext serverless existing)
     = (if existing then Some (CfnParameter_new lid ''DBSubnets'' DBSubnets_props) else None)"
  by (simp_all add: expected_parameters_def)

lemma find_fixed_params:
  "find (\<lambda>p. node_id p = ''MinContainers'') (expected_parameters lid vtext serverless existing)
     = Some (CfnParameter_new lid ''MinContainers'' MinContainers_props)"
  "find (\<lambda>p. node_id p = ''Keycloak Version'') (expected_parameters lid vtext serverless existing)
     = Some (CfnParameter_new lid ''Keycloak Version'' (KeycloakVersion_props vtext))"
  by (simp_all add: expected_parameters_def)

lemma resolve_selected_two:
  assumes "supplied (lid ident) = Some (StrList xs)" and "2 \<le> length xs"
  shows "map (resolve_subnet supplied) (map ImportedSubnet (selected_two lid ident props))
           = [Some (xs ! 0), Some (xs ! 1)]"
proof -
  have "0 < length xs" and "Suc 0 < length xs"
    using assms(2) by auto
  then show ?thesis
    using assms(1) by (simp add: selected_two_def resolve_param_def)
qed

text \<open>
  C4. With \<^verbatim>\<open>fromExistingVPC\<close> true and lists of at least two subnet identifiers supplied
  for \<^verbatim>\<open>PubSubnets\<close>, \<^verbatim>\<open>PrivSubnets\<close> and \<^verbatim>\<open>DBSubnets\<close>, each of the three subnet
  selections of the settings has exactly two subnets, and they resolve to the elements at
  positions 0 and 1 of the corresponding list.
\<close>

theorem existing_vpc_selects_subnets_0_and_1:
  assumes "truthy (flag_of fromExistingVPC props)"
    and "supplied (lid ''PubSubnets'') = Some (StrList pub)" and "2 \<le> length pub"
    and "supplied (lid ''PrivSubnets'') = Some (StrList priv)" and "2 \<le> length priv"
    and "supplied (lid ''DBSubnets'') = Some (StrList db)" and "2 \<le> length db"
  shows "\<exists>this kc pubSel privSel dbSel.
       KeycloakStack_new lid vtext VERSION props = Some (this, kc)
     \<and> publicSubnets (keycloakSettings this) = Some pubSel
     \<and> privateSubnets (keycloakSettings this) = Some privSel
     \<and> databaseSubnets (keycloakSettings this) = Some dbSel
     \<and> publicSubnets_k kc = Some pubSel \<and> privateSubnets_k kc = Some privSel
     \<and> databaseSubnets_k kc = Some dbSel
     \<and> length (subnets pubSel) = 2 \<and> length (subnets privSel) = 2 \<and> length (subnets dbSel) = 2
     \<and> resolve_selection supplied pubSel = [Some (pub ! 0), Some (pub ! 1)]
     \<and> resolve_selection supplied privSel = [Some (priv ! 0), Some (priv ! 1)]
     \<and> resolve_selection supplied dbSel = [Some (db ! 0), Some (db ! 1)]"
proof -
  let ?v = "expected_vpc lid"
  have pub: "resolve_selection supplied \<lparr>subnets = publicSubnets_of ?v\<rparr> = [Some (pub ! 0), Some (pub ! 1)]"
    using assms(2,3) resolve_selected_two [of supplied lid "''PubSubnets''" pub PubSubnets_props]
    by (simp add: resolve_selection_def expected_vpc_def fromVpcAttributes_def)
  have priv: "resolve_selection supplied \<lparr>subnets = privateSubnets_of ?v\<rparr> = [Some (priv ! 0), Some (priv ! 1)]"
    using assms(4,5) resolve_selected_two [of supplied lid "''PrivSubnets''" priv PrivSubnets_props]
    by (simp add: resolve_selection_def expected_vpc_def fromVpcAttributes_def)
  have db: "resolve_selection supplied \<lparr>subnets = isolatedSubnets_of ?v\<rparr> = [Some (db ! 0), Some (db ! 1)]"
    using assms(6,7) resolve_selected_two [of supplied lid "''DBSubnets''" db DBSubnets_props]
    by (simp add: resolve_selection_def expected_vpc_def fromVpcAttributes_def)
  have len: "length (publicSubnets_of ?v) = 2" "length (privateSubnets_of ?v) = 2"
    "length (isolatedSubnets_of ?v) = 2"
    by (simp_all add: expected_vpc_def fromVpcAttributes_def selected_two_def)
  show ?thesis
    using assms(1) pub priv db len
    by (simp add: KeycloakStack_new_closed_form settings_expected expected_settings_def
        expected_props_def)
qed

theorem existing_vpc_selects_subnets_0_and_1_witness:
  "\<exists>this kc. KeycloakStack_new id sample_vtext None
        (Some \<lparr>auroraServerless = Some True, fromExistingVPC = Some True\<rparr>) = Some (this, kc)
     \<and> map_option
         (resolve_selection
            [''PubSubnets'' \<mapsto> StrList [''subnet-a'', ''subnet-b'', ''subnet-c''],
             ''PrivSubnets'' \<mapsto> StrList [''subnet-d'', ''subnet-e''],
             ''DBSubnets'' \<mapsto> StrList [''subnet-f'', ''subnet-g'', ''subnet-h'']])
         (publicSubnets_k kc)
         = Some [Some ''subnet-a'', Some ''subnet-b'']"
proof -
  let ?props = "Some \<lparr>auroraServerless = Some True, fromExistingVPC = Some True\<rparr>"
  let ?supplied = "[''PubSubnets'' \<mapsto> StrList [''subnet-a'', ''subnet-b'', ''subnet-c''],
                    ''PrivSubnets'' \<mapsto> StrList [''subnet-d'', ''subnet-e''],
                    ''DBSubnets'' \<mapsto> StrList [''subnet-f'', ''subnet-g'', ''subnet-h'']]"
  have f: "truthy (flag_of fromExistingVPC ?props)"
    by (simp add: truthy_def flag_of_def)
  have a: "?supplied (id ''PubSubnets'') = Some (StrList [''subnet-a'', ''subnet-b'', ''subnet-c''])"
    and b: "?supplied (id ''PrivSubnets'') = Some (StrList [''subnet-d'', ''subnet-e''])"
    and c: "?supplied (id ''DBSubnets'') = Some (StrList [''subnet-f'', ''subnet-g'', ''subnet-h''])"
    by simp_all
  have la: "2 \<le> length [''subnet-a'', ''subnet-b'', ''subnet-c'']"
    and lb: "2 \<le> length [''subnet-d'', ''subnet-e'']"
    and lc: "2 \<le> length [''subnet-f'', ''subnet-g'', ''subnet-h'']"
    by simp_all
  obtain this kc and pubSel privSel dbSel :: SubnetSelection
    where r: "KeycloakStack_new id sample_vtext None ?props = Some (this, kc)"
    and k: "publicSubnets_k kc = Some pubSel"
    and s: "resolve_selection ?supplied pubSel
           = [Some ([''subnet-a'', ''subnet-b'', ''subnet-c''] ! 0),
              Some ([''subnet-a'', ''subnet-b'', ''subnet-c''] ! 1)]"
    using existing_vpc_selects_subnets_0_and_1
      [where props = ?props and supplied = ?supplied and lid = id and vtext = sample_vtext
         and VERSION = None and pub = "[''subnet-a'', ''subnet-b'', ''subnet-c'']"
         and priv = "[''subnet-d'', ''subnet-e'']"
         and db = "[''subnet-f'', ''subnet-g'', ''subnet-h'']", OF f a la b lb c lc]
    by (elim exE conjE)
  show ?thesis
    by (intro exI [of _ this] exI [of _ kc]) (simp add: r k s)
qed

text \<open>
  C5. For every pair of flags, the network, the public, the private and the database
  subnet selection of the settings are all set when \<^verbatim>\<open>fromExistingVPC\<close> is true and all
  unset otherwise, and \<^verbatim>\<open>KeyCloak\<close> receives the same four values.
\<close>

theorem network_fields_all_or_none:
  "\<exists>this kc. KeycloakStack_new lid vtext VERSION props = Some (this, kc)
     \<and> (if truthy (flag_of fromExistingVPC props)
         then vpc (keycloakSettings this) \<noteq> None \<and> publicSubnets (keycloakSettings this) \<noteq> None
            \<and> privateSubnets (keycloakSettings this) \<noteq> None
            \<and> databaseSubnets (keycloakSettings this) \<noteq> None
         else vpc (keycloakSettings this) = None \<and> publicSubnets (keycloakSettings this) = None
            \<and> privateSubnets (keycloakSettings this) = None
            \<and> databaseSubnets (keycloakSettings this) = None)
     \<and> vpc_k kc = vpc (keycloakSettings this)
     \<and> publicSubnets_k kc = publicSubnets (keycloakSettings this)
     \<and> privateSubnets_k kc = privateSubnets (keycloakSettings this)
     \<and> databaseSubnets_k kc = databaseSubnets (keycloakSettings this)"
  by (simp add: KeycloakStack_new_closed_form settings_expected expected_settings_def
      expected_props_def)

theorem network_fields_all_or_none_witness:
  "\<exists>this kc. KeycloakStack_new id sample_vtext (Some ''v2.0.0'')
        (Some \<lparr>auroraServerless = Some False, fromExistingVPC = Some False\<rparr>) = Some (this, kc)
     \<and> vpc (keycloakSettings this) = None \<and> publicSubnets (keycloakSettings this) = None
     \<and> privateSubnets (keycloakSettings this) = None
     \<and> databaseSubnets (keycloakSettings this) = None
     \<and> vpc_k kc = None \<and> publicSubnets_k kc = None \<and> privateSubnets_k kc = None
     \<and> databaseSubnets_k kc = None"
proof -
  let ?props = "Some \<lparr>auroraServerless = Some False, fromExistingVPC = Some False\<rparr>"
  have f: "\<not> truthy (flag_of fromExistingVPC ?props)"
    by (simp add: truthy_def flag_of_def)
  obtain this kc where r: "KeycloakStack_new id sample_vtext (Some ''v2.0.0'') ?props = Some (this, kc)"
    and n: "vpc (keycloakSettings this) = None" "publicSubnets (keycloakSettings this) = None"
      "privateSubnets (keycloakSettings this) = None"
      "databaseSubnets (keycloakSettings this) = None"
    and k: "vpc_k kc = vpc (keycloakSettings this)"
      "publicSubnets_k kc = publicSubnets (keycloakSettings this)"
      "privateSubnets_k kc = privateSubnets (keycloakSettings this)"
      "databaseSubnets_k kc = databaseSubnets (keycloakSettings this)"
    using network_fields_all_or_none [of id sample_vtext "Some ''v2.0.0''" ?props]
    unfolding if_not_P [OF f] by (elim exE conjE)
  show ?thesis
    by (intro exI [of _ this] exI [of _ kc]) (simp add: r n k)
qed

text \<open>
  C6, as stated, does not hold: the parameter \<^verbatim>\<open>Keycloak Version\<close> is declared without
  \<^verbatim>\<open>allowedValues\<close>, so nothing restricts its value to the versions its description
  lists. Here with both flags false.
\<close>

theorem version_selector_counterexample:
  "map_option (allowedValues \<circ> declared)
     (version_param id sample_vtext None
        (Some \<lparr>auroraServerless = Some False, fromExistingVPC = Some False\<rparr>)) = Some None"
  by (simp add: version_param_def KeycloakStack_new_closed_form declared_param_expected
      find_fixed_params KeycloakVersion_props_def no_props_def)

lemma group_ids_expected:
  assumes "label \<in> fst ` set (stored (expected_groups lid vtext serverless existing))"
  shows "group_ids (expected_stack lid vtext VERSION serverless existing) label
     = Some (stored_ids
               (the (own_get (stored (expected_groups lid vtext serverless existing)) label)))"
proof -
  have "exportGroups (expected_stack lid vtext VERSION serverless existing)
          = all_groups (stored (expected_groups lid vtext serverless existing))
              (own_keys (stored (expected_groups lid vtext serverless existing)))"
    by (simp add: exportGroups_def expected_stack_def own_get_def)
  moreover have "label \<in> set (own_keys (stored (expected_groups lid vtext serverless existing)))"
    using assms by (simp add: set_own_keys)
  ultimately show ?thesis
    by (simp add: group_ids_def find_all_groups mkgrp_def stored_ids_def)
qed

lemma version_group_expected:
  "group_ids (expected_stack lid vtext VERSION serverless existing) ''Keycloak Version''
     = Some (filtered_ids [Some (CfnParameter_new lid ''Keycloak Version'' (KeycloakVersion_props vtext))])"
proof -
  have "''Keycloak Version'' \<in> fst ` set (stored (expected_groups lid vtext serverless existing))"
    by (simp add: expected_groups_def stored_def)
  then show ?thesis
    by (simp add: group_ids_expected)
       (simp add: expected_groups_def stored_def own_get_def stored_ids_def filtered_ids_def)
qed

text \<open>
  C6, amended. For every pair of flags the constructor declares the parameter
  \<^verbatim>\<open>Keycloak Version\<close> as a free-form string: its type is \<^verbatim>\<open>String\<close>, it has no allowed
  values, its description is the text that lists the five named versions, and its default
  is \<^verbatim>\<open>cb.15.0.2\<close>. It is the only parameter of the group \<^verbatim>\<open>Keycloak Version\<close>, and the
  version handed to \<^verbatim>\<open>KeyCloak\<close> is made from its value: any supplied string, and the
  default when none is supplied.
\<close>

theorem version_selector_free_form:
  "\<exists>this kc p. KeycloakStack_new lid vtext VERSION props = Some (this, kc)
     \<and> declared_param this ''Keycloak Version'' = Some p
     \<and> type_p (declared p) = Some ''String''
     \<and> allowedValues (declared p) = None
     \<and> description_p (declared p) = Some (versions_description vtext)
     \<and> default_p (declared p) = Some (Str ''cb.15.0.2'')
     \<and> group_ids this ''Keycloak Version'' = Some (filtered_ids [Some p])
     \<and> keycloakVersion kc = KeycloakVersion_of (valueAsString p)
     \<and> resolve_version supplied (keycloakVersion kc)
         = (case supplied (logicalId p) of
              None \<Rightarrow> Some ''cb.15.0.2''
            | Some (Str s) \<Rightarrow> Some s
            | Some _ \<Rightarrow> None)"
  by (simp add: KeycloakStack_new_closed_form declared_param_expected find_fixed_params
      version_group_expected expected_props_def resolve_param_def
      KeycloakVersion_props_def no_props_def split: option.split jsvalue.split)

theorem version_selector_free_form_witness:
  "\<exists>this kc p. KeycloakStack_new id sample_vtext None
        (Some \<lparr>auroraServerless = Some True, fromExistingVPC = Some False\<rparr>) = Some (this, kc)
     \<and> declared_param this ''Keycloak Version'' = Some p
     \<and> allowedValues (declared p) = None
     \<and> default_p (declared p) = Some (Str ''cb.15.0.2'')
     \<and> keycloakVersion kc = KeycloakVersion_of (valueAsString p)"
proof -
  let ?props = "Some \<lparr>auroraServerless = Some True, fromExistingVPC = Some False\<rparr>"
  obtain this kc p where r: "KeycloakStack_new id sample_vtext None ?props = Some (this, kc)"
    and d: "declared_param this ''Keycloak Version'' = Some p"
    and t: "type_p (declared p) = Some ''String''"
    and a: "allowedValues (declared p) = None"
    and e: "description_p (declared p) = Some (versions_description sample_vtext)"
    and f: "default_p (declared p) = Some (Str ''cb.15.0.2'')"
    and g: "group_ids this ''Keycloak Version'' = Some (filtered_ids [Some p])"
    and v: "keycloakVersion kc = KeycloakVersion_of (valueAsString p)"
    using version_selector_free_form [of id sample_vtext None ?props Map.empty]
    by (elim exE conjE)
  show ?thesis
    by (intro exI [of _ this] exI [of _ kc] exI [of _ p]) (simp add: r d a f v)
qed

text \<open>
  C8. For every pair of flags and every other input of the constructor, the stickiness
  duration handed to \<^verbatim>\<open>KeyCloak\<close> is \<^verbatim>\<open>Duration.days(7)\<close>, a literal and not a deferred
  value; the parameters the constructor declares are the listed ones, none of which is a
  stickiness duration.
\<close>

theorem stickiness_fixed_at_seven_days:
  "\<exists>this kc. KeycloakStack_new lid vtext VERSION props = Some (this, kc)
     \<and> stickinessCookieDuration kc = Duration_days 7
     \<and> map node_id (parameters this)
         = [''CertificateArn'']
           @ (if truthy (flag_of auroraServerless props) then [] else [''DatabaseInstanceType''])
           @ (if truthy (flag_of fromExistingVPC props)
              then [''VpcId'', ''PubSubnets'', ''PrivSubnets'', ''DBSubnets''] else [])
           @ [''MinContainers'', ''MaxContainers'', ''AutoScalingTargetCpuUtilization'',
              ''JavaOpts'', ''Keycloak Version'']"
  by (simp add: KeycloakStack_new_closed_form expected_stack_def expected_parameters_def
      expected_props_def)

theorem stickiness_fixed_at_seven_days_witness:
  "\<exists>this kc. KeycloakStack_new id sample_vtext None
        (Some \<lparr>auroraServerless = Some True, fromExistingVPC = Some True\<rparr>) = Some (this, kc)
     \<and> stickinessCookieDuration kc = Duration_days 7
     \<and> map node_id (parameters this)
         = [''CertificateArn'', ''VpcId'', ''PubSubnets'', ''PrivSubnets'', ''DBSubnets'',
            ''MinContainers'', ''MaxContainers'', ''AutoScalingTargetCpuUtilization'',
            ''JavaOpts'', ''Keycloak Version'']"
proof -
  let ?props = "Some \<lparr>auroraServerless = Some True, fromExistingVPC = Some True\<rparr>"
  have a: "truthy (flag_of auroraServerless ?props)" and f: "truthy (flag_of fromExistingVPC ?props)"
    by (simp_all add: truthy_def flag_of_def)
  obtain this kc where r: "KeycloakStack_new id sample_vtext None ?props = Some (this, kc)"
    and d: "stickinessCookieDuration kc = Duration_days 7"
    and m: "map node_id (parameters this)
         = [''CertificateArn'']
           @ (if truthy (flag_of auroraServerless ?props) then [] else [''DatabaseInstanceType''])
           @ (if truthy (flag_of fromExistingVPC ?props)
              then [''VpcId'', ''PubSubnets'', ''PrivSubnets'', ''DBSubnets''] else [])
           @ [''MinContainers'', ''MaxContainers'', ''AutoScalingTargetCpuUtilization'',
              ''JavaOpts'', ''Keycloak Version'']"
    using stickiness_fixed_at_seven_days [of id sample_vtext None ?props] by (elim exE conjE)
  have "map node_id (parameters this)
         = [''CertificateArn'', ''VpcId'', ''PubSubnets'', ''PrivSubnets'', ''DBSubnets'',
            ''MinContainers'', ''MaxContainers'', ''AutoScalingTargetCpuUtilization'',
            ''JavaOpts'', ''Keycloak Version'']"
    unfolding m if_P [OF a] if_P [OF f] by (simp only: append.simps)
  then show ?thesis
    by (intro exI [of _ this] exI [of _ kc]) (simp add: r d)
qed

text \<open>
  C9. The constructor called without \<^verbatim>\<open>props\<close> leaves the same stack as the constructor
  called with both flags false, and hands \<^verbatim>\<open>KeyCloak\<close> the same properties, but for the
  flag \<^verbatim>\<open>auroraServerless\<close> itself, which is passed on as \<^verbatim>\<open>undefined\<close> and not as
  \<^verbatim>\<open>false\<close>. In that stack the parameter \<^verbatim>\<open>DatabaseInstanceType\<close> is declared and the
  instance class is set from it, none of the four network parameters is declared, and the
  four network fields are unset.
\<close>

theorem omitted_props_as_both_false:
  fixes more :: 'a
  shows "\<exists>this kc kc' p.
       KeycloakStack_new lid vtext VERSION (None :: 'a KeycloakStackProps_scheme option) = Some (this, kc)
     \<and> KeycloakStack_new lid vtext VERSION
           (Some \<lparr>auroraServerless = Some False, fromExistingVPC = Some False, \<dots> = more\<rparr>)
         = Some (this, kc')
     \<and> kc = kc'\<lparr>auroraServerless_k := None\<rparr>
     \<and> declared_param this ''DatabaseInstanceType'' = Some p
     \<and> databaseInstanceType (keycloakSettings this) = Some (InstanceType (valueAsString p))
     \<and> declared_param this ''VpcId'' = None \<and> declared_param this ''PubSubnets'' = None
     \<and> declared_param this ''PrivSubnets'' = None \<and> declared_param this ''DBSubnets'' = None
     \<and> vpc (keycloakSettings this) = None \<and> publicSubnets (keycloakSettings this) = None
     \<and> privateSubnets (keycloakSettings this) = None
     \<and> databaseSubnets (keycloakSettings this) = None"
  by (simp add: KeycloakStack_new_closed_form declared_param_expected settings_expected
      find_database_param find_network_params expected_settings_def expected_props_def truthy_def)

theorem omitted_props_as_both_false_witness:
  "\<exists>this kc kc' p.
       KeycloakStack_new id sample_vtext None (None :: KeycloakStackProps option) = Some (this, kc)
     \<and> KeycloakStack_new id sample_vtext None
          (Some \<lparr>auroraServerless = Some False, fromExistingVPC = Some False\<rparr>) = Some (this, kc')
     \<and> kc = kc'\<lparr>auroraServerless_k := None\<rparr>
     \<and> declared_param this ''DatabaseInstanceType'' = Some p
     \<and> declared_param this ''VpcId'' = None
     \<and> vpc (keycloakSettings this) = None"
proof -
  obtain this kc kc' p
    where r: "KeycloakStack_new id sample_vtext None (None :: KeycloakStackProps option) = Some (this, kc)"
    and r': "KeycloakStack_new id sample_vtext None
          (Some \<lparr>auroraServerless = Some False, fromExistingVPC = Some False\<rparr>) = Some (this, kc')"
    and k: "kc = kc'\<lparr>auroraServerless_k := None\<rparr>"
    and d: "declared_param this ''DatabaseInstanceType'' = Some p"
    and t: "databaseInstanceType (keycloakSettings this) = Some (InstanceType (valueAsString p))"
    and n: "declared_param this ''VpcId'' = None" "declared_param this ''PubSubnets'' = None"
      "declared_param this ''PrivSubnets'' = None" "declared_param this ''DBSubnets'' = None"
    and v: "vpc (keycloakSettings this) = None"
    using omitted_props_as_both_false [of id sample_vtext None "()"]
    by (elim exE conjE)
  show ?thesis
    using k by (intro exI [of _ this] exI [of _ kc] exI [of _ kc'] exI [of _ p]) (simp add: r r' d n v)
qed

text \<open>
  C10. For every pair of flags, \<^verbatim>\<open>nodeCount\<close> and the minimum of \<^verbatim>\<open>autoScaleTask\<close> handed to
  \<^verbatim>\<open>KeyCloak\<close> are the value of the one parameter \<^verbatim>\<open>MinContainers\<close>, so that they resolve
  to the same number: the one supplied, and 2 when none is supplied.
\<close>

theorem node_count_is_minimum_containers:
  "\<exists>this kc p. KeycloakStack_new lid vtext VERSION props = Some (this, kc)
     \<and> declared_param this ''MinContainers'' = Some p
     \<and> nodeCount kc = valueAsNumber p
     \<and> min_t (autoScaleTask kc) = valueAsNumber p
     \<and> resolve_number supplied (nodeCount kc) = autoscalingMin (resolve_settings supplied kc)
     \<and> resolve_number supplied (nodeCount kc)
         = (case supplied (logicalId p) of
              None \<Rightarrow> Some 2
            | Some (Num n) \<Rightarrow> Some n
            | Some _ \<Rightarrow> None)"
  by (simp add: KeycloakStack_new_closed_form declared_param_expected find_fixed_params
      expected_props_def resolve_param_def resolve_settings_def
      MinContainers_props_def no_props_def split: option.split jsvalue.split)

theorem node_count_is_minimum_containers_witness:
  "\<exists>this kc p. KeycloakStack_new id sample_vtext None
        (Some \<lparr>auroraServerless = Some False, fromExistingVPC = Some False\<rparr>) = Some (this, kc)
     \<and> declared_param this ''MinContainers'' = Some p
     \<and> nodeCount kc = valueAsNumber p
     \<and> min_t (autoScaleTask kc) = valueAsNumber p
     \<and> resolve_number Map.empty (nodeCount kc) = Some 2"
proof -
  let ?props = "Some \<lparr>auroraServerless = Some False, fromExistingVPC = Some False\<rparr>"
  obtain this kc p where r: "KeycloakStack_new id sample_vtext None ?props = Some (this, kc)"
    and p: "declared_param this ''MinContainers'' = Some p"
    and n: "nodeCount kc = valueAsNumber p" and m: "min_t (autoScaleTask kc) = valueAsNumber p"
    and v: "resolve_number Map.empty (nodeCount kc)
         = (case Map.empty (logicalId p) of
              None \<Rightarrow> Some 2
            | Some (Num n) \<Rightarrow> Some n
            | Some _ \<Rightarrow> None)"
    using node_count_is_minimum_containers [of id sample_vtext None ?props Map.empty]
    by (elim exE conjE)
  have "resolve_number Map.empty (nodeCount kc) = Some 2"
    unfolding v by simp
  then show ?thesis
    by (intro exI [of _ this] exI [of _ kc] exI [of _ p]) (simp add: r p n m)
qed

end
